theory Spec2Isabelle
  imports Complex_Main "HOL-Library.AList"
begin

section \<open>Offline-first synchronisation engine: data model\<close>

text \<open>
  The development embeds \<^verbatim>\<open>src/lib/localStorage.ts\<close>: the storage objects
  (\<^verbatim>\<open>syncStorage\<close>, \<^verbatim>\<open>contentStorage\<close>, \<^verbatim>\<open>cacheStorage\<close>) and the class
  \<^verbatim>\<open>SyncManager\<close> that follows them in the same file.

  Conventions of the embedding.
  \<^item> Time stamps. The source keeps \<^verbatim>\<open>created_at\<close>, \<^verbatim>\<open>updated_at\<close> and
    \<^verbatim>\<open>last_sync\<close> as ISO strings and compares them through \<^verbatim>\<open>new Date(s)\<close>; the
    model keeps the millisecond number \<^verbatim>\<open>new Date(s).getTime()\<close> as an \<open>int\<close>.
    \<^verbatim>\<open>Date.now()\<close> is the parameter \<open>now\<close> of the operation that reads it.
  \<^item> JSON. \<^verbatim>\<open>JSON.stringify\<close> followed by \<^verbatim>\<open>JSON.parse\<close> gives the value back,
    so the slots of the key/value store hold typed values.
  \<^item> Promises. An \<^verbatim>\<open>async\<close> function that may reject returns a sum: \<open>Inl msg\<close> is the
    rejection with the error's \<^verbatim>\<open>message\<close>. Calls are run to completion in program
    order. \<^verbatim>\<open>console.error\<close> output is not part of the state.
  \<^item> Where the source text has lost a literal (\<^verbatim>\<open>uploaded: ,\<close>), the counter starts
    at \<open>0\<close>, the value that \<^verbatim>\<open>result.uploaded++\<close> needs.
\<close>

datatype sync_state = Pending | Synced | Failed

datatype content_type = Marker | Object | Text | Audio | Model

record ContentItem =
  id_c :: string
  user_id :: string
  title :: string
  description :: "string option"
  type_c :: content_type
  position_lat :: real
  position_lng :: real
  position_alt :: "real option"
  data_c :: string
  is_public :: bool
  created_at :: int
  updated_at :: int
  sync_status :: "sync_state option"
  local_id :: "string option"

record SyncStatus =
  last_sync :: "int option"
  pending_uploads :: "string list"
  pending_deletions :: "string list"
  is_online :: bool

text \<open>\<^verbatim>\<open>Partial<SyncStatus>\<close>: a field that is absent is \<open>None\<close>.\<close>

record SyncStatusPartial =
  last_sync_p :: "int option option"
  pending_uploads_p :: "string list option"
  pending_deletions_p :: "string list option"
  is_online_p :: "bool option"

record CacheData =
  contents :: "ContentItem list"
  timestamp :: int
  maxAge :: int

subsection \<open>AsyncStorage\<close>

text \<open>
  The keys the engine uses: \<^verbatim>\<open>sync_status\<close>, \<^verbatim>\<open>content_cache\<close> and
  \<^verbatim>\<open>user_content_<id>\<close>. The content slots are an association list in the order
  \<^verbatim>\<open>getAllKeys\<close> reports them. Every primitive of AsyncStorage can reject; the
  \<open>*_error\<close> fields say for which key it does, and with which message.
\<close>

datatype key = SYNC_STATUS | CONTENT_CACHE | USER_CONTENT string

record AsyncStorage =
  sync_status_item :: "SyncStatus option"
  content_cache_item :: "CacheData option"
  user_content_items :: "(string \<times> ContentItem) list"
  getItem_error :: "key \<Rightarrow> string option"
  setItem_error :: "key \<Rightarrow> string option"
  removeItem_error :: "key \<Rightarrow> string option"
  getAllKeys_error :: "string option"

definition no_faults :: "AsyncStorage \<Rightarrow> bool" where
  "no_faults s \<longleftrightarrow>
     getItem_error s = (\<lambda>k. None) \<and> setItem_error s = (\<lambda>k. None) \<and>
     removeItem_error s = (\<lambda>k. None) \<and> getAllKeys_error s = None"

section \<open>syncStorage\<close>

definition default_SyncStatus :: SyncStatus where
  "default_SyncStatus =
     \<lparr>last_sync = None, pending_uploads = [], pending_deletions = [], is_online = True\<rparr>"

definition syncStorage_getSyncStatus :: "AsyncStorage \<Rightarrow> SyncStatus" where
  "syncStorage_getSyncStatus s =
     (case getItem_error s SYNC_STATUS of
        Some e \<Rightarrow> default_SyncStatus
      | None \<Rightarrow> (case sync_status_item s of
                   None \<Rightarrow> default_SyncStatus
                 | Some d \<Rightarrow> d))"

text \<open>The object spread \<^verbatim>\<open>{ ...current, ...status }\<close>.\<close>

definition spread :: "SyncStatus \<Rightarrow> SyncStatusPartial \<Rightarrow> SyncStatus" where
  "spread current status =
     \<lparr>last_sync = (case last_sync_p status of None \<Rightarrow> last_sync current | Some v \<Rightarrow> v),
      pending_uploads =
        (case pending_uploads_p status of None \<Rightarrow> pending_uploads current | Some v \<Rightarrow> v),
      pending_deletions =
        (case pending_deletions_p status of None \<Rightarrow> pending_deletions current | Some v \<Rightarrow> v),
      is_online = (case is_online_p status of None \<Rightarrow> is_online current | Some v \<Rightarrow> v)\<rparr>"

definition whole :: "SyncStatus \<Rightarrow> SyncStatusPartial" where
  "whole status =
     \<lparr>last_sync_p = Some (last_sync status),
      pending_uploads_p = Some (pending_uploads status),
      pending_deletions_p = Some (pending_deletions status),
      is_online_p = Some (is_online status)\<rparr>"

text \<open>
  \<^verbatim>\<open>saveSyncStatus\<close>: the \<^verbatim>\<open>catch\<close> block logs and does not rethrow, so the promise
  resolves also when \<^verbatim>\<open>setItem\<close> rejects.
\<close>

definition syncStorage_saveSyncStatus ::
  "SyncStatusPartial \<Rightarrow> AsyncStorage \<Rightarrow> string + AsyncStorage" where
  "syncStorage_saveSyncStatus status s =
     (let current = syncStorage_getSyncStatus s;
          updated = spread current status
      in case setItem_error s SYNC_STATUS of
           Some e \<Rightarrow> Inr s
         | None \<Rightarrow> Inr (s\<lparr>sync_status_item := Some updated\<rparr>))"

definition syncStorage_updateLastSync :: "int \<Rightarrow> AsyncStorage \<Rightarrow> string + AsyncStorage" where
  "syncStorage_updateLastSync now s =
     syncStorage_saveSyncStatus
       \<lparr>last_sync_p = Some (Some now), pending_uploads_p = None,
        pending_deletions_p = None, is_online_p = None\<rparr> s"

definition syncStorage_addPendingUpload ::
  "string \<Rightarrow> AsyncStorage \<Rightarrow> string + AsyncStorage" where
  "syncStorage_addPendingUpload contentId s =
     (let status = syncStorage_getSyncStatus s
      in if contentId \<notin> set (pending_uploads status)
         then syncStorage_saveSyncStatus
                (whole (status\<lparr>pending_uploads := pending_uploads status @ [contentId]\<rparr>)) s
         else Inr s)"

definition syncStorage_addPendingDeletion ::
  "string \<Rightarrow> AsyncStorage \<Rightarrow> string + AsyncStorage" where
  "syncStorage_addPendingDeletion contentId s =
     (let status = syncStorage_getSyncStatus s
      in if contentId \<notin> set (pending_deletions status)
         then syncStorage_saveSyncStatus
                (whole (status\<lparr>pending_deletions := pending_deletions status @ [contentId]\<rparr>)) s
         else Inr s)"

definition syncStorage_removeFromPending ::
  "string \<Rightarrow> AsyncStorage \<Rightarrow> string + AsyncStorage" where
  "syncStorage_removeFromPending contentId s =
     (let status = syncStorage_getSyncStatus s;
          status1 = status\<lparr>pending_uploads :=
                      filter (\<lambda>i. i \<noteq> contentId) (pending_uploads status)\<rparr>;
          status2 = status1\<lparr>pending_deletions :=
                      filter (\<lambda>i. i \<noteq> contentId) (pending_deletions status1)\<rparr>
      in syncStorage_saveSyncStatus (whole status2) s)"

section \<open>contentStorage\<close>

definition contentStorage_saveContent ::
  "ContentItem \<Rightarrow> AsyncStorage \<Rightarrow> string + AsyncStorage" where
  "contentStorage_saveContent content s =
     (case setItem_error s (USER_CONTENT (id_c content)) of
        Some e \<Rightarrow> Inl e
      | None \<Rightarrow> Inr (s\<lparr>user_content_items :=
                        AList.update (id_c content) content (user_content_items s)\<rparr>))"

text \<open>
  \<^verbatim>\<open>getAllContent\<close>: any rejection inside the \<^verbatim>\<open>try\<close> gives the empty list;
  otherwise the items, newest \<^verbatim>\<open>created_at\<close> first (\<^verbatim>\<open>Array.prototype.sort\<close> is
  stable, as \<open>sort_key\<close> is).
\<close>

definition contentStorage_getAllContent :: "AsyncStorage \<Rightarrow> ContentItem list" where
  "contentStorage_getAllContent s =
     (case getAllKeys_error s of
        Some e \<Rightarrow> []
      | None \<Rightarrow>
          if \<exists>k \<in> set (map fst (user_content_items s)). getItem_error s (USER_CONTENT k) \<noteq> None
          then []
          else sort_key (\<lambda>c. - created_at c) (map snd (user_content_items s)))"

definition contentStorage_getContentById :: "string \<Rightarrow> AsyncStorage \<Rightarrow> ContentItem option" where
  "contentStorage_getContentById i s =
     (case getItem_error s (USER_CONTENT i) of
        Some e \<Rightarrow> None
      | None \<Rightarrow> map_of (user_content_items s) i)"

definition contentStorage_getPendingSyncContent :: "AsyncStorage \<Rightarrow> ContentItem list" where
  "contentStorage_getPendingSyncContent s =
     filter (\<lambda>content. sync_status content = Some Pending) (contentStorage_getAllContent s)"

definition contentStorage_updateSyncStatus ::
  "string \<Rightarrow> sync_state \<Rightarrow> AsyncStorage \<Rightarrow> string + AsyncStorage" where
  "contentStorage_updateSyncStatus i status s =
     (case contentStorage_getContentById i s of
        None \<Rightarrow> Inr s
      | Some content \<Rightarrow> contentStorage_saveContent (content\<lparr>sync_status := Some status\<rparr>) s)"

definition contentStorage_deleteContent :: "string \<Rightarrow> AsyncStorage \<Rightarrow> string + AsyncStorage" where
  "contentStorage_deleteContent i s =
     (case removeItem_error s (USER_CONTENT i) of
        Some e \<Rightarrow> Inl e
      | None \<Rightarrow> Inr (s\<lparr>user_content_items := AList.delete i (user_content_items s)\<rparr>))"

section \<open>cacheStorage\<close>

definition default_maxAge :: int where
  "default_maxAge = 24 * 60 * 60 * 100"

definition cacheStorage_saveContentCache ::
  "ContentItem list \<Rightarrow> int \<Rightarrow> int \<Rightarrow> AsyncStorage \<Rightarrow> string + AsyncStorage" where
  "cacheStorage_saveContentCache cs max_age now s =
     (let cacheData = \<lparr>contents = cs, timestamp = now, maxAge = max_age\<rparr>
      in case setItem_error s CONTENT_CACHE of
           Some e \<Rightarrow> Inl e
         | None \<Rightarrow> Inr (s\<lparr>content_cache_item := Some cacheData\<rparr>))"

definition cacheStorage_clearContentCache :: "AsyncStorage \<Rightarrow> string + AsyncStorage" where
  "cacheStorage_clearContentCache s =
     (case removeItem_error s CONTENT_CACHE of
        Some e \<Rightarrow> Inr s
      | None \<Rightarrow> Inr (s\<lparr>content_cache_item := None\<rparr>))"

text \<open>
  \<^verbatim>\<open>getContentCache\<close> returns the list and leaves the storage as the read found or
  purged it.
\<close>

definition cacheStorage_getContentCache ::
  "int \<Rightarrow> AsyncStorage \<Rightarrow> ContentItem list \<times> AsyncStorage" where
  "cacheStorage_getContentCache now s =
     (case getItem_error s CONTENT_CACHE of
        Some e \<Rightarrow> ([], s)
      | None \<Rightarrow>
         (case content_cache_item s of
            None \<Rightarrow> ([], s)
          | Some cacheData \<Rightarrow>
              if now - timestamp cacheData > maxAge cacheData
              then (case cacheStorage_clearContentCache s of
                      Inl e \<Rightarrow> ([], s)
                    | Inr s' \<Rightarrow> ([], s'))
              else (contents cacheData, s)))"

section \<open>Collaborators of the SyncManager\<close>

subsection \<open>The reactive global store\<close>

datatype activity = Idle | Syncing | Offline

text \<open>
  The part of \<^verbatim>\<open>globalStore\<close> that the SyncManager reads or writes. \<open>auth_user\<close> is
  the \<^verbatim>\<open>id\<close> of \<^verbatim>\<open>globalStore.auth.user\<close>, \<open>None\<close> when the user is \<^verbatim>\<open>null\<close>.
\<close>

record GlobalState =
  auth_user :: "string option"
  app_isOnline :: bool
  profile_syncStatus :: activity
  ar_currentLocation :: "(real \<times> real) option"
  ar_nearbyContent :: "ContentItem list"
  localContent_userContent :: "ContentItem list"

definition storeActions_setOnlineStatus :: "bool \<Rightarrow> GlobalState \<Rightarrow> GlobalState" where
  "storeActions_setOnlineStatus b g = g\<lparr>app_isOnline := b\<rparr>"

definition storeActions_setSyncStatus :: "activity \<Rightarrow> GlobalState \<Rightarrow> GlobalState" where
  "storeActions_setSyncStatus a g = g\<lparr>profile_syncStatus := a\<rparr>"

definition storeActions_updateNearbyContent :: "ContentItem list \<Rightarrow> GlobalState \<Rightarrow> GlobalState" where
  "storeActions_updateNearbyContent cs g = g\<lparr>ar_nearbyContent := cs\<rparr>"

definition storeActions_addLocalContent :: "ContentItem \<Rightarrow> GlobalState \<Rightarrow> GlobalState" where
  "storeActions_addLocalContent c g =
     g\<lparr>localContent_userContent := localContent_userContent g @ [c]\<rparr>"

text \<open>\<^verbatim>\<open>findIndex\<close> followed by \<^verbatim>\<open>splice(index, 1)\<close>: the first match is removed.\<close>

fun splice_first :: "('a \<Rightarrow> bool) \<Rightarrow> 'a list \<Rightarrow> 'a list" where
  "splice_first P [] = []"
| "splice_first P (x # xs) = (if P x then xs else x # splice_first P xs)"

definition storeActions_removeLocalContent :: "string \<Rightarrow> GlobalState \<Rightarrow> GlobalState" where
  "storeActions_removeLocalContent i g =
     g\<lparr>localContent_userContent :=
         splice_first (\<lambda>item. id_c item = i) (localContent_userContent g)\<rparr>"

text \<open>
  \<^verbatim>\<open>downloadRemoteContent\<close> calls \<^verbatim>\<open>storeActions.updateLocalContent(userContent)\<close>
  with the downloaded array where the action expects an id: no item's \<^verbatim>\<open>id\<close> is
  strictly equal to an array, \<^verbatim>\<open>findIndex\<close> gives \<^verbatim>\<open>-1\<close> and the store is left as
  it is.
\<close>

definition storeActions_updateLocalContent_array ::
  "ContentItem list \<Rightarrow> GlobalState \<Rightarrow> GlobalState" where
  "storeActions_updateLocalContent_array userContent g = g"

subsection \<open>The remote content service\<close>

text \<open>
  A call of \<^verbatim>\<open>arContentUtils\<close> either rejects (\<^verbatim>\<open>throw new Error(...)\<close>, a network
  failure) or resolves to \<^verbatim>\<open>{ data, error }\<close>. The record gives the answers of the
  service during one operation of the SyncManager; the answer to \<^verbatim>\<open>createARContent\<close>
  is indexed by the local item the call is made for, so that two items with equal
  fields can be answered differently.
\<close>

datatype 'a response = Rejected string | Response "'a option" "string option"

record RemoteService =
  createARContent :: "ContentItem \<Rightarrow> ContentItem response"
  getUserARContent :: "ContentItem list response"
  getNearbyPublicARContent :: "real \<Rightarrow> real \<Rightarrow> ContentItem list response"
  deleteARContent :: "string \<Rightarrow> unit response"

datatype remote_call =
    CreateARContent ContentItem
  | GetUserARContent
  | GetNearbyPublicARContent real real
  | DeleteARContent string

text \<open>What \<^verbatim>\<open>const { error } = await f(...); if (error) throw error;\<close> throws.\<close>

fun thrown_by :: "'a response \<Rightarrow> string option" where
  "thrown_by (Rejected e) = Some e"
| "thrown_by (Response d err) = err"

fun created :: "remote_call list \<Rightarrow> ContentItem list" where
  "created [] = []"
| "created (CreateARContent c # calls) = c # created calls"
| "created (call # calls) = created calls"

section \<open>SyncManager\<close>

record SyncResult =
  success :: bool
  uploaded :: nat
  downloaded :: nat
  failed :: nat
  errors :: "string list"

text \<open>
  The state an operation of the SyncManager runs in: the durable store, the reactive
  store, the two private flags, and the calls made to the remote service so far.
\<close>

record World =
  storage :: AsyncStorage
  globalStore :: GlobalState
  isOnline :: bool
  isSyncing :: bool
  remote_log :: "remote_call list"

definition call_remote :: "remote_call \<Rightarrow> World \<Rightarrow> World" where
  "call_remote c w = w\<lparr>remote_log := remote_log w @ [c]\<rparr>"

subsection \<open>Upload\<close>

text \<open>
  The \<^verbatim>\<open>try\<close> block of the loop body of \<^verbatim>\<open>uploadPendingContent\<close>: \<open>Inl\<close> is the
  error thrown, with the state at that point.
\<close>

definition upload_try :: "RemoteService \<Rightarrow> ContentItem \<Rightarrow> World \<Rightarrow> (string \<times> World) + World" where
  "upload_try remote content w =
     (let w1 = call_remote (CreateARContent content) w
      in case thrown_by (createARContent remote content) of
           Some e \<Rightarrow> Inl (e, w1)
         | None \<Rightarrow>
            (case contentStorage_updateSyncStatus (id_c content) Synced (storage w1) of
               Inl e \<Rightarrow> Inl (e, w1)
             | Inr s2 \<Rightarrow>
                (case syncStorage_removeFromPending (id_c content) s2 of
                   Inl e \<Rightarrow> Inl (e, w1\<lparr>storage := s2\<rparr>)
                 | Inr s3 \<Rightarrow> Inr (w1\<lparr>storage := s3\<rparr>))))"

text \<open>The message of \<^verbatim>\<open>`Upload failed for ${content.title}: ${error.message}`\<close>.\<close>

definition upload_failed_message :: "ContentItem \<Rightarrow> string \<Rightarrow> string" where
  "upload_failed_message content e = ''Upload failed for '' @ title content @ '': '' @ e"

text \<open>
  One iteration. The first component is the error that leaves the loop, if any: the
  \<^verbatim>\<open>catch\<close> block itself awaits \<^verbatim>\<open>updateSyncStatus\<close>, which rejects when the
  write does.
\<close>

definition upload_one ::
  "RemoteService \<Rightarrow> ContentItem \<Rightarrow> SyncResult \<times> World \<Rightarrow> string option \<times> SyncResult \<times> World" where
  "upload_one remote content rw =
     (case rw of (result, w) \<Rightarrow>
        (case upload_try remote content w of
           Inr w' \<Rightarrow> (None, result\<lparr>uploaded := uploaded result + 1\<rparr>, w')
         | Inl (e, w') \<Rightarrow>
            (case contentStorage_updateSyncStatus (id_c content) Failed (storage w') of
               Inl e2 \<Rightarrow> (Some e2, result, w')
             | Inr s' \<Rightarrow>
                 (None,
                  result\<lparr>failed := failed result + 1,
                         errors := errors result @ [upload_failed_message content e]\<rparr>,
                  w'\<lparr>storage := s'\<rparr>))))"

fun upload_loop ::
  "RemoteService \<Rightarrow> ContentItem list \<Rightarrow> SyncResult \<times> World \<Rightarrow> string option \<times> SyncResult \<times> World" where
  "upload_loop remote [] rw = (None, rw)"
| "upload_loop remote (content # rest) rw =
     (case upload_one remote content rw of
        (Some e, rw') \<Rightarrow> (Some e, rw')
      | (None, rw') \<Rightarrow> upload_loop remote rest rw')"

definition SyncManager_uploadPendingContent ::
  "RemoteService \<Rightarrow> SyncResult \<Rightarrow> World \<Rightarrow> string option \<times> SyncResult \<times> World" where
  "SyncManager_uploadPendingContent remote result w =
     (let pendingContent = contentStorage_getPendingSyncContent (storage w)
      in upload_loop remote pendingContent (result, w))"

subsection \<open>Download and merge\<close>

text \<open>
  The loop of \<^verbatim>\<open>mergeRemoteContent\<close> over the map built before it. A rejected
  \<^verbatim>\<open>saveContent\<close> leaves the loop with the items saved so far.
\<close>

fun merge_loop ::
  "(string \<rightharpoonup> ContentItem) \<Rightarrow> ContentItem list \<Rightarrow> AsyncStorage \<Rightarrow> string option \<times> AsyncStorage" where
  "merge_loop localContentMap [] s = (None, s)"
| "merge_loop localContentMap (remote # rest) s =
     (if (case localContentMap (id_c remote) of
            None \<Rightarrow> True
          | Some local \<Rightarrow> updated_at remote > updated_at local)
      then (case contentStorage_saveContent (remote\<lparr>sync_status := Some Synced\<rparr>) s of
              Inl e \<Rightarrow> (Some e, s)
            | Inr s' \<Rightarrow> merge_loop localContentMap rest s')
      else merge_loop localContentMap rest s)"

text \<open>\<^verbatim>\<open>new Map(pairs)\<close> keeps the last pair of a key; \<open>map_of\<close> keeps the first.\<close>

definition SyncManager_mergeRemoteContent ::
  "ContentItem list \<Rightarrow> AsyncStorage \<Rightarrow> string option \<times> AsyncStorage" where
  "SyncManager_mergeRemoteContent remoteContent s =
     (let localContent = contentStorage_getAllContent s;
          localContentMap = map_of (rev (map (\<lambda>c. (id_c c, c)) localContent))
      in merge_loop localContentMap remoteContent s)"

definition SyncManager_mergePublicContent ::
  "ContentItem list \<Rightarrow> int \<Rightarrow> AsyncStorage \<Rightarrow> string + AsyncStorage" where
  "SyncManager_mergePublicContent publicContent now s =
     cacheStorage_saveContentCache publicContent default_maxAge now s"

text \<open>The two halves of the \<^verbatim>\<open>try\<close> block of \<^verbatim>\<open>downloadRemoteContent\<close>.\<close>

definition download_user ::
  "RemoteService \<Rightarrow> SyncResult \<times> World \<Rightarrow> string option \<times> SyncResult \<times> World" where
  "download_user remote rw =
     (case rw of (result, w) \<Rightarrow>
        (let w1 = call_remote GetUserARContent w
         in case getUserARContent remote of
              Rejected e \<Rightarrow> (Some e, result, w1)
            | Response d (Some userError) \<Rightarrow> (Some userError, result, w1)
            | Response None None \<Rightarrow> (None, result, w1)
            | Response (Some userContent) None \<Rightarrow>
               (case SyncManager_mergeRemoteContent userContent (storage w1) of
                  (Some e, s') \<Rightarrow> (Some e, result, w1\<lparr>storage := s'\<rparr>)
                | (None, s') \<Rightarrow>
                    (None,
                     result\<lparr>downloaded := downloaded result + length userContent\<rparr>,
                     w1\<lparr>storage := s',
                        globalStore :=
                          storeActions_updateLocalContent_array userContent (globalStore w1)\<rparr>))))"

definition download_nearby ::
  "RemoteService \<Rightarrow> int \<Rightarrow> SyncResult \<times> World \<Rightarrow> string option \<times> SyncResult \<times> World" where
  "download_nearby remote now rw =
     (case rw of (result, w) \<Rightarrow>
        (case ar_currentLocation (globalStore w) of
           None \<Rightarrow> (None, result, w)
         | Some (latitude, longitude) \<Rightarrow>
            (let w1 = call_remote (GetNearbyPublicARContent latitude longitude) w
             in case getNearbyPublicARContent remote latitude longitude of
                  Rejected e \<Rightarrow> (Some e, result, w1)
                | Response (Some nearbyContent) None \<Rightarrow>
                   (case SyncManager_mergePublicContent nearbyContent now (storage w1) of
                      Inl e \<Rightarrow> (Some e, result, w1)
                    | Inr s' \<Rightarrow>
                        (None, result,
                         w1\<lparr>storage := s',
                            globalStore :=
                              storeActions_updateNearbyContent nearbyContent (globalStore w1)\<rparr>))
                | Response d nearbyError \<Rightarrow> (None, result, w1))))"

definition SyncManager_downloadRemoteContent ::
  "RemoteService \<Rightarrow> int \<Rightarrow> SyncResult \<times> World \<Rightarrow> SyncResult \<times> World" where
  "SyncManager_downloadRemoteContent remote now rw =
     (case (case download_user remote rw of
              (Some e, rw') \<Rightarrow> (Some e, rw')
            | (None, rw') \<Rightarrow> download_nearby remote now rw') of
        (None, rw'') \<Rightarrow> rw''
      | (Some e, result, w) \<Rightarrow>
          (result\<lparr>errors := errors result @ [''Download failed: '' @ e]\<rparr>, w))"

subsection \<open>The sync cycle\<close>

definition rejected_SyncResult :: SyncResult where
  "rejected_SyncResult =
     \<lparr>success = False, uploaded = 0, downloaded = 0, failed = 0,
      errors = [''Sync already in progress or offline'']\<rparr>"

definition initial_SyncResult :: SyncResult where
  "initial_SyncResult =
     \<lparr>success = True, uploaded = 0, downloaded = 0, failed = 0, errors = []\<rparr>"

text \<open>The \<^verbatim>\<open>try\<close> block of \<^verbatim>\<open>syncContent\<close>; one \<open>now\<close> stands for the whole cycle.\<close>

definition sync_try ::
  "RemoteService \<Rightarrow> int \<Rightarrow> SyncResult \<times> World \<Rightarrow> string option \<times> SyncResult \<times> World" where
  "sync_try remote now rw =
     (case SyncManager_uploadPendingContent remote (fst rw) (snd rw) of
        (Some e, rw1) \<Rightarrow> (Some e, rw1)
      | (None, rw1) \<Rightarrow>
         (case SyncManager_downloadRemoteContent remote now rw1 of
            (result, w2) \<Rightarrow>
              (case syncStorage_updateLastSync now (storage w2) of
                 Inl e \<Rightarrow> (Some e, result, w2)
               | Inr s3 \<Rightarrow>
                   (None, result\<lparr>success := (length (errors result) = 0)\<rparr>,
                    w2\<lparr>storage := s3\<rparr>))))"

definition SyncManager_syncContent ::
  "RemoteService \<Rightarrow> int \<Rightarrow> World \<Rightarrow> SyncResult \<times> World" where
  "SyncManager_syncContent remote now w =
     (if isSyncing w \<or> \<not> isOnline w then (rejected_SyncResult, w)
      else
        (let w1 = w\<lparr>isSyncing := True,
                    globalStore := storeActions_setSyncStatus Syncing (globalStore w)\<rparr>
         in case sync_try remote now (initial_SyncResult, w1) of
              (thrown, result, w2) \<Rightarrow>
                (let result' =
                       (case thrown of
                          None \<Rightarrow> result
                        | Some e \<Rightarrow>
                            result\<lparr>success := False,
                                   errors := errors result @
                                     [if e = [] then ''Unknown sync error'' else e]\<rparr>);
                     w3 = w2\<lparr>isSyncing := False,
                             globalStore :=
                               storeActions_setSyncStatus
                                 (if isOnline w2 then Idle else Offline) (globalStore w2)\<rparr>
                 in (result', w3))))"

subsection \<open>Reacting to the network\<close>

text \<open>
  \<^verbatim>\<open>syncContent\<close> catches every error of a cycle itself, so the \<^verbatim>\<open>catch\<close> of
  \<^verbatim>\<open>triggerAutoSync\<close> has nothing to do; the result object is dropped.
\<close>

definition SyncManager_triggerAutoSync :: "RemoteService \<Rightarrow> int \<Rightarrow> World \<Rightarrow> World" where
  "SyncManager_triggerAutoSync remote now w =
     (let settings = syncStorage_getSyncStatus (storage w)
      in if is_online settings then snd (SyncManager_syncContent remote now w) else w)"

text \<open>
  The listener that \<^verbatim>\<open>initNetworkListener\<close> registers, applied to one event;
  \<open>isConnected\<close> is \<^verbatim>\<open>state.isConnected\<close>, \<open>None\<close> for \<^verbatim>\<open>null\<close>. The auto-sync
  it starts is not awaited; the model runs it to its end.
\<close>

definition network_listener ::
  "RemoteService \<Rightarrow> int \<Rightarrow> bool option \<Rightarrow> World \<Rightarrow> World" where
  "network_listener remote now isConnected w =
     (let wasOnline = isOnline w;
          w1 = w\<lparr>isOnline := (case isConnected of None \<Rightarrow> False | Some b \<Rightarrow> b)\<rparr>;
          w2 = w1\<lparr>globalStore := storeActions_setOnlineStatus (isOnline w1) (globalStore w1)\<rparr>
      in if \<not> wasOnline \<and> isOnline w2 then SyncManager_triggerAutoSync remote now w2 else w2)"

subsection \<open>Local mutations and views\<close>

text \<open>
  \<^verbatim>\<open>createLocalContent\<close>: \<open>stamp\<close> is the decimal text of \<^verbatim>\<open>Date.now()\<close> and \<open>rand\<close>
  the text \<^verbatim>\<open>Math.random().toString(36).substr(2, 9)\<close>. The immediate sync is not
  awaited; the model runs it to its end and drops its result.
\<close>

definition SyncManager_createLocalContent ::
  "RemoteService \<Rightarrow> int \<Rightarrow> string \<Rightarrow> string \<Rightarrow> ContentItem \<Rightarrow> World \<Rightarrow> (string + ContentItem) \<times> World" where
  "SyncManager_createLocalContent remote now stamp rand content w =
     (case auth_user (globalStore w) of
        None \<Rightarrow> (Inl ''User not authenticated'', w)
      | Some uid \<Rightarrow>
         (let localContentId = ''local_'' @ stamp @ ''_'' @ rand;
              newContent = content\<lparr>id_c := localContentId, user_id := uid,
                                   created_at := now, updated_at := now,
                                   sync_status := Some Pending,
                                   local_id := Some localContentId\<rparr>
          in case contentStorage_saveContent newContent (storage w) of
               Inl e \<Rightarrow> (Inl e, w)
             | Inr s1 \<Rightarrow>
                (case syncStorage_addPendingUpload localContentId s1 of
                   Inl e \<Rightarrow> (Inl e, w\<lparr>storage := s1\<rparr>)
                 | Inr s2 \<Rightarrow>
                    (let w2 = w\<lparr>storage := s2,
                                globalStore :=
                                  storeActions_addLocalContent newContent (globalStore w)\<rparr>
                     in if isOnline w2
                        then (Inr newContent, snd (SyncManager_syncContent remote now w2))
                        else (Inr newContent, w2)))))"

text \<open>
  \<^verbatim>\<open>deleteContent\<close>: the first component is the rejection, if any. The
  \<^verbatim>\<open>{ error }\<close> that \<^verbatim>\<open>deleteARContent\<close> resolves to is not inspected.
\<close>

definition SyncManager_deleteContent ::
  "RemoteService \<Rightarrow> string \<Rightarrow> World \<Rightarrow> string option \<times> World" where
  "SyncManager_deleteContent remote contentId w =
     (case syncStorage_addPendingDeletion contentId (storage w) of
        Inl e \<Rightarrow> (Some e, w)
      | Inr s1 \<Rightarrow>
         (case contentStorage_updateSyncStatus contentId Failed s1 of
            Inl e \<Rightarrow> (Some e, w\<lparr>storage := s1\<rparr>)
          | Inr s2 \<Rightarrow>
             (let w2 = w\<lparr>storage := s2,
                         globalStore :=
                           storeActions_removeLocalContent contentId (globalStore w)\<rparr>
              in if isOnline w2
                 then (let w3 = call_remote (DeleteARContent contentId) w2
                       in case deleteARContent remote contentId of
                            Rejected e \<Rightarrow> (None, w3)
                          | Response d err \<Rightarrow>
                             (case syncStorage_removeFromPending contentId (storage w3) of
                                Inl e \<Rightarrow> (None, w3)
                              | Inr s4 \<Rightarrow> (None, w3\<lparr>storage := s4\<rparr>)))
                 else (None, w2))))"

definition SyncManager_getAllAvailableContent ::
  "int \<Rightarrow> World \<Rightarrow> ContentItem list \<times> World" where
  "SyncManager_getAllAvailableContent now w =
     (let localContent = contentStorage_getAllContent (storage w);
          user = auth_user (globalStore w);
          userContent =
            filter (\<lambda>c. Some (user_id c) = user \<or> sync_status c \<noteq> Some Failed) localContent
      in case cacheStorage_getContentCache now (storage w) of
           (cachedPublic, s') \<Rightarrow> (userContent @ cachedPublic, w\<lparr>storage := s'\<rparr>))"

definition SyncManager_manualSync ::
  "RemoteService \<Rightarrow> int \<Rightarrow> World \<Rightarrow> (string + SyncResult) \<times> World" where
  "SyncManager_manualSync remote now w =
     (if \<not> isOnline w then (Inl ''Cannot sync while offline'', w)
      else (case SyncManager_syncContent remote now w of (result, w') \<Rightarrow> (Inr result, w')))"

definition SyncManager_resetSyncState :: "World \<Rightarrow> string option \<times> World" where
  "SyncManager_resetSyncState w =
     (case syncStorage_saveSyncStatus
             \<lparr>last_sync_p = Some None, pending_uploads_p = Some [],
              pending_deletions_p = Some [], is_online_p = Some (isOnline w)\<rparr> (storage w) of
        Inl e \<Rightarrow> (Some e, w)
      | Inr s' \<Rightarrow> (None, w\<lparr>storage := s'\<rparr>))"

section \<open>Well-formed stores and sample data\<close>

text \<open>
  \<^verbatim>\<open>saveContent\<close> writes an item under the key made from its own id, so in every
  store the program has built each key is used once and holds the item of that id.
\<close>

definition store_ok :: "AsyncStorage \<Rightarrow> bool" where
  "store_ok s \<longleftrightarrow>
     distinct (map fst (user_content_items s)) \<and>
     (\<forall>kc \<in> set (user_content_items s). id_c (snd kc) = fst kc)"

text \<open>Whether the push of an item is answered without an error.\<close>

definition push_ok :: "RemoteService \<Rightarrow> ContentItem \<Rightarrow> bool" where
  "push_ok remote c \<longleftrightarrow> thrown_by (createARContent remote c) = None"

text \<open>Sample data for the closed instances below.\<close>

definition sample_item :: "string \<Rightarrow> string \<Rightarrow> int \<Rightarrow> sync_state option \<Rightarrow> ContentItem" where
  "sample_item i owner t st =
     \<lparr>id_c = i, user_id = owner, title = ''Mill '' @ i, description = None, type_c = Marker,
      position_lat = 45, position_lng = 14, position_alt = None, data_c = ''{}'',
      is_public = False, created_at = t, updated_at = t, sync_status = st, local_id = None\<rparr>"

definition sample_storage ::
  "SyncStatus option \<Rightarrow> CacheData option \<Rightarrow> ContentItem list \<Rightarrow> AsyncStorage" where
  "sample_storage meta cache items =
     \<lparr>sync_status_item = meta, content_cache_item = cache,
      user_content_items = map (\<lambda>c. (id_c c, c)) items,
      getItem_error = (\<lambda>k. None), setItem_error = (\<lambda>k. None),
      removeItem_error = (\<lambda>k. None), getAllKeys_error = None\<rparr>"

definition sample_store :: "string option \<Rightarrow> GlobalState" where
  "sample_store user =
     \<lparr>auth_user = user, app_isOnline = True, profile_syncStatus = Idle,
      ar_currentLocation = None, ar_nearbyContent = [], localContent_userContent = []\<rparr>"

definition sample_world :: "AsyncStorage \<Rightarrow> string option \<Rightarrow> bool \<Rightarrow> bool \<Rightarrow> World" where
  "sample_world s user online syncing =
     \<lparr>storage = s, globalStore = sample_store user, isOnline = online, isSyncing = syncing,
      remote_log = []\<rparr>"

text \<open>
  A service that stores every push under a fresh server id, except the pushes of the
  items whose id is listed, which it refuses; it has no rows to download.
\<close>

definition sample_remote :: "string list \<Rightarrow> RemoteService" where
  "sample_remote refused =
     \<lparr>createARContent =
        (\<lambda>c. if id_c c \<in> set refused then Response None (Some ''row rejected'')
             else Response (Some (c\<lparr>id_c := ''srv_'' @ id_c c\<rparr>)) None),
      getUserARContent = Response (Some []) None,
      getNearbyPublicARContent = (\<lambda>lat lng. Response (Some []) None),
      deleteARContent = (\<lambda>i. Response None None)\<rparr>"

section \<open>Evaluation and frame lemmas\<close>

text \<open>The defining equations, collected for running the model on sample data.\<close>

named_theorems run

declare no_faults_def [run] default_SyncStatus_def [run] syncStorage_getSyncStatus_def [run]
  spread_def [run] whole_def [run] syncStorage_saveSyncStatus_def [run]
  syncStorage_updateLastSync_def [run] syncStorage_addPendingUpload_def [run]
  syncStorage_addPendingDeletion_def [run] syncStorage_removeFromPending_def [run]
  contentStorage_saveContent_def [run] contentStorage_getAllContent_def [run]
  contentStorage_getContentById_def [run] contentStorage_getPendingSyncContent_def [run]
  contentStorage_updateSyncStatus_def [run] contentStorage_deleteContent_def [run]
  default_maxAge_def [run] cacheStorage_saveContentCache_def [run]
  cacheStorage_clearContentCache_def [run] cacheStorage_getContentCache_def [run]
  storeActions_setOnlineStatus_def [run] storeActions_setSyncStatus_def [run]
  storeActions_updateNearbyContent_def [run] storeActions_addLocalContent_def [run]
  storeActions_removeLocalContent_def [run] storeActions_updateLocalContent_array_def [run]
  call_remote_def [run] upload_failed_message_def [run] upload_try_def [run]
  upload_one_def [run] SyncManager_uploadPendingContent_def [run]
  SyncManager_mergeRemoteContent_def [run] SyncManager_mergePublicContent_def [run]
  download_user_def [run] download_nearby_def [run]
  SyncManager_downloadRemoteContent_def [run] rejected_SyncResult_def [run]
  initial_SyncResult_def [run] sync_try_def [run] SyncManager_syncContent_def [run]
  SyncManager_triggerAutoSync_def [run] network_listener_def [run]
  SyncManager_createLocalContent_def [run] SyncManager_deleteContent_def [run]
  SyncManager_getAllAvailableContent_def [run] SyncManager_manualSync_def [run]
  SyncManager_resetSyncState_def [run] store_ok_def [run] push_ok_def [run]
  sample_item_def [run] sample_storage_def [run] sample_store_def [run]
  sample_world_def [run] sample_remote_def [run]

text \<open>
  The writes of \<^verbatim>\<open>contentStorage\<close> keep a store well formed, so every store built
  from the empty one is.
\<close>

lemma set_update_subset: "set (AList.update k v al) \<subseteq> insert (k, v) (set al)"
  by (induction al) auto

lemma store_ok_saveContent:
  assumes "store_ok s" "contentStorage_saveContent c s = Inr s'"
  shows "store_ok s'"
proof -
  have s': "user_content_items s' = AList.update (id_c c) c (user_content_items s)"
    using assms(2) by (auto simp: contentStorage_saveContent_def split: option.splits)
  have "distinct (map fst (user_content_items s'))"
    using assms(1) by (simp add: s' store_ok_def distinct_update)
  moreover have "\<forall>kc\<in>set (user_content_items s'). id_c (snd kc) = fst kc"
    using assms(1) set_update_subset [of "id_c c" c "user_content_items s"]
    by (auto simp: s' store_ok_def)
  ultimately show ?thesis by (simp add: store_ok_def)
qed

lemma store_ok_deleteContent:
  assumes "store_ok s" "contentStorage_deleteContent i s = Inr s'"
  shows "store_ok s'"
proof -
  have s': "user_content_items s' = AList.delete i (user_content_items s)"
    using assms(2) by (auto simp: contentStorage_deleteContent_def split: option.splits)
  have "distinct (map fst (user_content_items s'))"
    using assms(1) by (simp add: s' store_ok_def distinct_delete)
  moreover have "\<forall>kc\<in>set (user_content_items s'). id_c (snd kc) = fst kc"
    using assms(1) by (auto simp: s' store_ok_def AList.delete_eq)
  ultimately show ?thesis by (simp add: store_ok_def)
qed

subsection \<open>Stores whose reads and writes succeed\<close>

lemma no_faultsD:
  "no_faults s \<Longrightarrow> getItem_error s k = None"
  "no_faults s \<Longrightarrow> setItem_error s k = None"
  "no_faults s \<Longrightarrow> removeItem_error s k = None"
  "no_faults s \<Longrightarrow> getAllKeys_error s = None"
  by (simp_all add: no_faults_def)

lemma getSyncStatus_saveContent:
  "contentStorage_saveContent c s = Inr s' \<Longrightarrow>
   syncStorage_getSyncStatus s' = syncStorage_getSyncStatus s"
  by (auto simp: contentStorage_saveContent_def syncStorage_getSyncStatus_def
      split: option.splits)

lemma getSyncStatus_updateSyncStatus:
  "contentStorage_updateSyncStatus i st s = Inr s' \<Longrightarrow>
   syncStorage_getSyncStatus s' = syncStorage_getSyncStatus s"
  by (auto simp: contentStorage_updateSyncStatus_def dest: getSyncStatus_saveContent
      split: option.splits)

lemma updateSyncStatus_healthy:
  "setItem_error s = (\<lambda>k. None) \<Longrightarrow>
   \<exists>s'. contentStorage_updateSyncStatus i st s = Inr s' \<and>
        setItem_error s' = (\<lambda>k. None) \<and> getItem_error s' = getItem_error s"
  by (auto simp: contentStorage_updateSyncStatus_def contentStorage_saveContent_def
      split: option.splits)

lemma addPendingDeletion_healthy:
  assumes "getItem_error s SYNC_STATUS = None" "setItem_error s SYNC_STATUS = None"
  shows "\<exists>s'. syncStorage_addPendingDeletion i s = Inr s' \<and>
           getItem_error s' = getItem_error s \<and> setItem_error s' = setItem_error s \<and>
           i \<in> set (pending_deletions (syncStorage_getSyncStatus s')) \<and>
           pending_uploads (syncStorage_getSyncStatus s') =
             pending_uploads (syncStorage_getSyncStatus s)"
  using assms
  by (auto simp: syncStorage_addPendingDeletion_def syncStorage_saveSyncStatus_def
      syncStorage_getSyncStatus_def spread_def whole_def Let_def split: option.splits)

lemma removeFromPending_healthy:
  assumes "getItem_error s SYNC_STATUS = None" "setItem_error s SYNC_STATUS = None"
  shows "\<exists>s'. syncStorage_removeFromPending i s = Inr s' \<and>
           pending_deletions (syncStorage_getSyncStatus s') =
             filter (\<lambda>j. j \<noteq> i) (pending_deletions (syncStorage_getSyncStatus s)) \<and>
           pending_uploads (syncStorage_getSyncStatus s') =
             filter (\<lambda>j. j \<noteq> i) (pending_uploads (syncStorage_getSyncStatus s))"
  using assms
  by (auto simp: syncStorage_removeFromPending_def syncStorage_saveSyncStatus_def
      syncStorage_getSyncStatus_def spread_def whole_def Let_def split: option.splits)

lemma updateSyncStatus_stored:
  assumes "no_faults s" "map_of (user_content_items s) (id_c c) = Some c"
  shows "contentStorage_updateSyncStatus (id_c c) st s =
           Inr (s\<lparr>user_content_items :=
                    AList.update (id_c c) (c\<lparr>sync_status := Some st\<rparr>) (user_content_items s)\<rparr>)"
  using assms
  by (simp add: contentStorage_updateSyncStatus_def contentStorage_getContentById_def
      contentStorage_saveContent_def no_faultsD)

lemma saveSyncStatus_resolves:
  "\<exists>s'. syncStorage_saveSyncStatus p s = Inr s'"
  by (cases "setItem_error s SYNC_STATUS") (simp_all add: syncStorage_saveSyncStatus_def Let_def)

lemma saveSyncStatus_frame:
  assumes "syncStorage_saveSyncStatus p s = Inr s'"
  shows "user_content_items s' = user_content_items s"
    and "content_cache_item s' = content_cache_item s"
    and "no_faults s' = no_faults s"
  using assms
  by (cases "setItem_error s SYNC_STATUS";
      auto simp: syncStorage_saveSyncStatus_def Let_def no_faults_def)+

lemma removeFromPending_resolves:
  "\<exists>s'. syncStorage_removeFromPending i s = Inr s'"
  by (simp add: syncStorage_removeFromPending_def Let_def saveSyncStatus_resolves)

lemma removeFromPending_frame:
  assumes "syncStorage_removeFromPending i s = Inr s'"
  shows "user_content_items s' = user_content_items s"
    and "content_cache_item s' = content_cache_item s"
    and "no_faults s' = no_faults s"
  using assms saveSyncStatus_frame
  by (simp_all add: syncStorage_removeFromPending_def Let_def)

subsection \<open>The upload loop on such a store\<close>

lemma upload_one_healthy:
  assumes nf: "no_faults (storage w)"
    and st: "map_of (user_content_items (storage w)) (id_c c) = Some c"
  shows "\<exists>w'. upload_one remote c (r, w) =
           (None,
            (case thrown_by (createARContent remote c) of
               None \<Rightarrow> r\<lparr>uploaded := uploaded r + 1\<rparr>
             | Some e \<Rightarrow> r\<lparr>failed := failed r + 1,
                          errors := errors r @ [upload_failed_message c e]\<rparr>), w')
         \<and> user_content_items (storage w') =
             AList.update (id_c c)
               (c\<lparr>sync_status := Some (if push_ok remote c then Synced else Failed)\<rparr>)
               (user_content_items (storage w))
         \<and> no_faults (storage w') \<and> remote_log w' = remote_log w @ [CreateARContent c]
         \<and> isOnline w' = isOnline w \<and> isSyncing w' = isSyncing w
         \<and> globalStore w' = globalStore w
         \<and> content_cache_item (storage w') = content_cache_item (storage w)"
proof (cases "thrown_by (createARContent remote c)")
  case None
  let ?s2 = "(storage w)\<lparr>user_content_items :=
                    AList.update (id_c c) (c\<lparr>sync_status := Some Synced\<rparr>) (user_content_items (storage w))\<rparr>"
  have u: "contentStorage_updateSyncStatus (id_c c) Synced (storage w) = Inr ?s2"
    using nf st by (rule updateSyncStatus_stored)
  obtain s3 where r3: "syncStorage_removeFromPending (id_c c) ?s2 = Inr s3"
    using removeFromPending_resolves by blast
  have nf2: "no_faults ?s2" using nf by (simp add: no_faults_def)
  from removeFromPending_frame [OF r3] nf2
  have f: "user_content_items s3 = user_content_items ?s2"
    "content_cache_item s3 = content_cache_item ?s2" "no_faults s3"
    by simp_all
  have "upload_one remote c (r, w) =
      (None, r\<lparr>uploaded := uploaded r + 1\<rparr>,
       w\<lparr>remote_log := remote_log w @ [CreateARContent c], storage := s3\<rparr>)"
    by (simp add: upload_one_def upload_try_def call_remote_def None u r3)
  with None f show ?thesis by (simp add: push_ok_def)
next
  case (Some e)
  let ?s2 = "(storage w)\<lparr>user_content_items :=
                    AList.update (id_c c) (c\<lparr>sync_status := Some Failed\<rparr>) (user_content_items (storage w))\<rparr>"
  have u: "contentStorage_updateSyncStatus (id_c c) Failed (storage w) = Inr ?s2"
    using nf st by (rule updateSyncStatus_stored)
  have nf2: "no_faults ?s2" using nf by (simp add: no_faults_def)
  have "upload_one remote c (r, w) =
      (None, r\<lparr>failed := failed r + 1, errors := errors r @ [upload_failed_message c e]\<rparr>,
       w\<lparr>remote_log := remote_log w @ [CreateARContent c], storage := ?s2\<rparr>)"
    by (simp add: upload_one_def upload_try_def call_remote_def Some u)
  with Some nf2 show ?thesis by (simp add: push_ok_def)
qed

lemma upload_loop_healthy:
  assumes "no_faults (storage w)" "distinct (map id_c cs)"
    and "\<forall>c\<in>set cs. map_of (user_content_items (storage w)) (id_c c) = Some c"
  shows "\<exists>w'. upload_loop remote cs (r, w) =
           (None,
            r\<lparr>uploaded := uploaded r + length (filter (push_ok remote) cs),
              failed := failed r + length (filter (\<lambda>c. \<not> push_ok remote c) cs),
              errors := errors r @ concat (map (\<lambda>c. case thrown_by (createARContent remote c) of
                          None \<Rightarrow> [] | Some e \<Rightarrow> [upload_failed_message c e]) cs)\<rparr>, w')
         \<and> (\<forall>c\<in>set cs. map_of (user_content_items (storage w')) (id_c c) =
               Some (c\<lparr>sync_status := Some (if push_ok remote c then Synced else Failed)\<rparr>))
         \<and> (\<forall>i. i \<notin> id_c ` set cs \<longrightarrow>
               map_of (user_content_items (storage w')) i = map_of (user_content_items (storage w)) i)
         \<and> map fst (user_content_items (storage w')) = map fst (user_content_items (storage w))
         \<and> no_faults (storage w') \<and> remote_log w' = remote_log w @ map CreateARContent cs
         \<and> isOnline w' = isOnline w \<and> isSyncing w' = isSyncing w
         \<and> globalStore w' = globalStore w
         \<and> content_cache_item (storage w') = content_cache_item (storage w)"
  using assms
proof (induction cs arbitrary: r w)
  case Nil
  then show ?case by simp
next
  case (Cons c cs)
  have st: "map_of (user_content_items (storage w)) (id_c c) = Some c"
    using Cons.prems(3) by simp
  let ?r1 = "case thrown_by (createARContent remote c) of
               None \<Rightarrow> r\<lparr>uploaded := uploaded r + 1\<rparr>
             | Some e \<Rightarrow> r\<lparr>failed := failed r + 1,
                          errors := errors r @ [upload_failed_message c e]\<rparr>"
  let ?c1 = "c\<lparr>sync_status := Some (if push_ok remote c then Synced else Failed)\<rparr>"
  from upload_one_healthy [OF Cons.prems(1) st, of remote r] obtain w1 where
    one: "upload_one remote c (r, w) = (None, ?r1, w1)"
    and items1: "user_content_items (storage w1) =
             AList.update (id_c c) ?c1 (user_content_items (storage w))"
    and rest1: "no_faults (storage w1)" "remote_log w1 = remote_log w @ [CreateARContent c]"
      "isOnline w1 = isOnline w" "isSyncing w1 = isSyncing w" "globalStore w1 = globalStore w"
      "content_cache_item (storage w1) = content_cache_item (storage w)"
    by blast
  have lookup1: "map_of (user_content_items (storage w1)) =
      (map_of (user_content_items (storage w)))(id_c c \<mapsto> ?c1)"
    by (simp only: items1 update_conv')
  have "(id_c c, c) \<in> set (user_content_items (storage w))"
    using st by (rule map_of_SomeD)
  then have "id_c c \<in> set (map fst (user_content_items (storage w)))"
    by force
  then have keys1: "map fst (user_content_items (storage w1)) = map fst (user_content_items (storage w))"
    by (simp only: items1 update_keys if_True)
  have notin: "id_c c \<notin> id_c ` set cs" and dist: "distinct (map id_c cs)"
    using Cons.prems(2) by auto
  have stored: "\<forall>c'\<in>set cs. map_of (user_content_items (storage w1)) (id_c c') = Some c'"
  proof
    fix c' assume c': "c' \<in> set cs"
    then have "id_c c' \<noteq> id_c c" using notin by (metis imageI)
    then show "map_of (user_content_items (storage w1)) (id_c c') = Some c'"
      using Cons.prems(3) c' by (simp add: lookup1)
  qed
  from Cons.IH [OF rest1(1) dist stored, of ?r1] obtain w' where
    loop: "upload_loop remote cs (?r1, w1) =
           (None,
            ?r1\<lparr>uploaded := uploaded ?r1 + length (filter (push_ok remote) cs),
              failed := failed ?r1 + length (filter (\<lambda>c. \<not> push_ok remote c) cs),
              errors := errors ?r1 @ concat (map (\<lambda>c. case thrown_by (createARContent remote c) of
                          None \<Rightarrow> [] | Some e \<Rightarrow> [upload_failed_message c e]) cs)\<rparr>, w')"
    and after: "\<forall>c\<in>set cs. map_of (user_content_items (storage w')) (id_c c) =
               Some (c\<lparr>sync_status := Some (if push_ok remote c then Synced else Failed)\<rparr>)"
      "\<forall>i. i \<notin> id_c ` set cs \<longrightarrow>
               map_of (user_content_items (storage w')) i = map_of (user_content_items (storage w1)) i"
      "map fst (user_content_items (storage w')) = map fst (user_content_items (storage w1))"
      "no_faults (storage w')" "remote_log w' = remote_log w1 @ map CreateARContent cs"
      "isOnline w' = isOnline w1" "isSyncing w' = isSyncing w1" "globalStore w' = globalStore w1"
      "content_cache_item (storage w') = content_cache_item (storage w1)"
    by blast
  have res: "upload_loop remote (c # cs) (r, w) =
           (None,
            r\<lparr>uploaded := uploaded r + length (filter (push_ok remote) (c # cs)),
              failed := failed r + length (filter (\<lambda>c. \<not> push_ok remote c) (c # cs)),
              errors := errors r @ concat (map (\<lambda>c. case thrown_by (createARContent remote c) of
                          None \<Rightarrow> [] | Some e \<Rightarrow> [upload_failed_message c e]) (c # cs))\<rparr>, w')"
    using loop by (cases "thrown_by (createARContent remote c)") (simp_all add: one push_ok_def)
  have a: "\<forall>c'\<in>set (c # cs). map_of (user_content_items (storage w')) (id_c c') =
               Some (c'\<lparr>sync_status := Some (if push_ok remote c' then Synced else Failed)\<rparr>)"
    using after(1) after(2) notin by (simp add: lookup1)
  have b: "\<forall>i. i \<notin> id_c ` set (c # cs) \<longrightarrow>
               map_of (user_content_items (storage w')) i = map_of (user_content_items (storage w)) i"
    using after(2) by (simp add: lookup1)
  have c: "map fst (user_content_items (storage w')) = map fst (user_content_items (storage w))"
    "no_faults (storage w')" "remote_log w' = remote_log w @ map CreateARContent (c # cs)"
    "isOnline w' = isOnline w" "isSyncing w' = isSyncing w" "globalStore w' = globalStore w"
    "content_cache_item (storage w') = content_cache_item (storage w)"
    using after(3-) rest1 keys1 by simp_all
  show ?case
    using res a b c by blast
qed

lemma getAllContent_healthy:
  "no_faults s \<Longrightarrow>
   contentStorage_getAllContent s = sort_key (\<lambda>c. - created_at c) (map snd (user_content_items s))"
  by (simp add: contentStorage_getAllContent_def no_faultsD)

lemma store_ok_ids:
  assumes "store_ok s"
  shows "map id_c (map snd (user_content_items s)) = map fst (user_content_items s)"
  using assms by (simp add: store_ok_def)

lemma store_ok_lookup:
  assumes "store_ok s" "c \<in> set (map snd (user_content_items s))"
  shows "map_of (user_content_items s) (id_c c) = Some c"
proof -
  from assms(2) obtain k where k: "(k, c) \<in> set (user_content_items s)" by auto
  with assms(1) have "id_c c = k" by (auto simp: store_ok_def)
  with k assms(1) show ?thesis by (simp add: store_ok_def)
qed

lemma distinct_map_sort_key:
  "distinct (map g (sort_key f xs)) = distinct (map g xs)"
  by (simp add: distinct_map)

lemma getAllContent_stored:
  assumes "no_faults s" "store_ok s"
  shows "distinct (map id_c (contentStorage_getAllContent s))"
    and "\<forall>c\<in>set (contentStorage_getAllContent s). map_of (user_content_items s) (id_c c) = Some c"
    and "set (contentStorage_getAllContent s) = snd ` set (user_content_items s)"
proof -
  have "distinct (map id_c (map snd (user_content_items s)))"
    using assms(2) by (simp only: store_ok_ids) (simp add: store_ok_def)
  then show "distinct (map id_c (contentStorage_getAllContent s))"
    by (simp only: getAllContent_healthy [OF assms(1)] distinct_map_sort_key)
  show "\<forall>c\<in>set (contentStorage_getAllContent s). map_of (user_content_items s) (id_c c) = Some c"
    using store_ok_lookup [OF assms(2)] by (simp add: getAllContent_healthy [OF assms(1)])
  show "set (contentStorage_getAllContent s) = snd ` set (user_content_items s)"
    by (simp add: getAllContent_healthy [OF assms(1)])
qed

lemma pending_stored:
  assumes "no_faults s" "store_ok s"
  shows "distinct (map id_c (contentStorage_getPendingSyncContent s))"
    and "\<forall>c\<in>set (contentStorage_getPendingSyncContent s).
           map_of (user_content_items s) (id_c c) = Some c"
proof -
  show "distinct (map id_c (contentStorage_getPendingSyncContent s))"
    using getAllContent_stored(1) [OF assms]
    by (simp add: contentStorage_getPendingSyncContent_def distinct_map_filter)
  show "\<forall>c\<in>set (contentStorage_getPendingSyncContent s).
           map_of (user_content_items s) (id_c c) = Some c"
    using getAllContent_stored(2) [OF assms]
    by (simp add: contentStorage_getPendingSyncContent_def)
qed

lemma getContentById_healthy:
  "no_faults s \<Longrightarrow> contentStorage_getContentById i s = map_of (user_content_items s) i"
  by (simp add: contentStorage_getContentById_def no_faultsD)

lemma uploadPendingContent_healthy:
  assumes "no_faults (storage w)" "store_ok (storage w)"
  shows "\<exists>w'. SyncManager_uploadPendingContent remote result w =
           (None,
            result\<lparr>uploaded := uploaded result +
                      length (filter (push_ok remote) (contentStorage_getPendingSyncContent (storage w))),
                   failed := failed result +
                      length (filter (\<lambda>c. \<not> push_ok remote c) (contentStorage_getPendingSyncContent (storage w))),
                   errors := errors result @
                      concat (map (\<lambda>c. case thrown_by (createARContent remote c) of
                                          None \<Rightarrow> []
                                        | Some e \<Rightarrow> [upload_failed_message c e])
                                (contentStorage_getPendingSyncContent (storage w)))\<rparr>, w')
         \<and> (\<forall>c\<in>set (contentStorage_getPendingSyncContent (storage w)).
               contentStorage_getContentById (id_c c) (storage w') =
                 Some (c\<lparr>sync_status := Some (if push_ok remote c then Synced else Failed)\<rparr>))
         \<and> map fst (user_content_items (storage w')) = map fst (user_content_items (storage w))
         \<and> no_faults (storage w')
         \<and> remote_log w' = remote_log w @
              map CreateARContent (contentStorage_getPendingSyncContent (storage w))
         \<and> isOnline w' = isOnline w \<and> isSyncing w' = isSyncing w
         \<and> globalStore w' = globalStore w"
proof -
  from upload_loop_healthy [OF assms(1) pending_stored [OF assms], of remote result]
  obtain w' where
    loop: "upload_loop remote (contentStorage_getPendingSyncContent (storage w)) (result, w) =
           (None,
            result\<lparr>uploaded := uploaded result +
                      length (filter (push_ok remote) (contentStorage_getPendingSyncContent (storage w))),
                   failed := failed result +
                      length (filter (\<lambda>c. \<not> push_ok remote c) (contentStorage_getPendingSyncContent (storage w))),
                   errors := errors result @
                      concat (map (\<lambda>c. case thrown_by (createARContent remote c) of
                                          None \<Rightarrow> []
                                        | Some e \<Rightarrow> [upload_failed_message c e])
                                (contentStorage_getPendingSyncContent (storage w)))\<rparr>, w')"
    and st: "\<forall>c\<in>set (contentStorage_getPendingSyncContent (storage w)).
               map_of (user_content_items (storage w')) (id_c c) =
                 Some (c\<lparr>sync_status := Some (if push_ok remote c then Synced else Failed)\<rparr>)"
    and nf: "no_faults (storage w')"
    and rest: "map fst (user_content_items (storage w')) = map fst (user_content_items (storage w))"
      "remote_log w' = remote_log w @
              map CreateARContent (contentStorage_getPendingSyncContent (storage w))"
      "isOnline w' = isOnline w" "isSyncing w' = isSyncing w" "globalStore w' = globalStore w"
    by blast
  show ?thesis
    using loop st nf rest
    by (simp add: SyncManager_uploadPendingContent_def getContentById_healthy [OF nf])
qed

subsection \<open>Pushes recorded in the log of remote calls\<close>

lemma created_append: "created (xs @ ys) = created xs @ created ys"
  by (induction xs rule: created.induct) simp_all

lemma created_map_Create: "created (map CreateARContent cs) = cs"
  by (induction cs) simp_all

lemma download_user_created:
  "download_user remote (r, w) = (t, r', w') \<Longrightarrow> created (remote_log w') = created (remote_log w)"
  by (auto simp: download_user_def call_remote_def created_append Let_def
      split: response.splits option.splits prod.splits)

lemma download_nearby_created:
  "download_nearby remote now (r, w) = (t, r', w') \<Longrightarrow>
   created (remote_log w') = created (remote_log w)"
  by (auto simp: download_nearby_def call_remote_def created_append Let_def
      split: response.splits option.splits prod.splits sum.splits)

lemma downloadRemoteContent_created:
  assumes "SyncManager_downloadRemoteContent remote now (r, w) = (r', w')"
  shows "created (remote_log w') = created (remote_log w)"
proof (cases "download_user remote (r, w)")
  case (fields t r1 w1)
  note u = download_user_created [OF fields]
  show ?thesis
  proof (cases t)
    case (Some e)
    with assms fields u show ?thesis
      by (simp add: SyncManager_downloadRemoteContent_def)
  next
    case None
    obtain t2 r2 w2 where n: "download_nearby remote now (r1, w1) = (t2, r2, w2)"
      by (cases "download_nearby remote now (r1, w1)")
    from download_nearby_created [OF n] u assms fields None n show ?thesis
      by (cases t2) (simp_all add: SyncManager_downloadRemoteContent_def)
  qed
qed

lemma updateLastSync_resolves: "\<exists>s'. syncStorage_updateLastSync now s = Inr s'"
  by (simp add: syncStorage_updateLastSync_def saveSyncStatus_resolves)

lemma sync_try_created:
  assumes "no_faults (storage w)" "store_ok (storage w)"
  shows "created (remote_log (snd (snd (sync_try remote now (r, w))))) =
           created (remote_log w) @ contentStorage_getPendingSyncContent (storage w)"
proof -
  from uploadPendingContent_healthy [OF assms, of remote r] obtain r1 w1 where
    up: "SyncManager_uploadPendingContent remote r w = (None, r1, w1)"
    and log: "remote_log w1 = remote_log w @
              map CreateARContent (contentStorage_getPendingSyncContent (storage w))"
    by blast
  obtain r2 w2 where d: "SyncManager_downloadRemoteContent remote now (r1, w1) = (r2, w2)"
    by (cases "SyncManager_downloadRemoteContent remote now (r1, w1)")
  obtain s3 where l: "syncStorage_updateLastSync now (storage w2) = Inr s3"
    using updateLastSync_resolves by blast
  have "created (remote_log w2) = created (remote_log w1)"
    using d by (rule downloadRemoteContent_created)
  then show ?thesis
    by (simp add: sync_try_def up d l log created_append created_map_Create)
qed

subsection \<open>Local creation and the merge loop\<close>

lemma addPendingUpload_resolves: "\<exists>s'. syncStorage_addPendingUpload i s = Inr s'"
  by (simp add: syncStorage_addPendingUpload_def Let_def saveSyncStatus_resolves)

lemma addPendingUpload_frame:
  assumes "syncStorage_addPendingUpload i s = Inr s'"
  shows "user_content_items s' = user_content_items s" and "no_faults s' = no_faults s"
  using assms saveSyncStatus_frame
  by (auto simp: syncStorage_addPendingUpload_def Let_def split: if_splits)

lemma saveContent_healthy:
  "no_faults s \<Longrightarrow>
   contentStorage_saveContent c s =
     Inr (s\<lparr>user_content_items := AList.update (id_c c) c (user_content_items s)\<rparr>)"
  by (simp add: contentStorage_saveContent_def no_faultsD)

lemma localContentMap_healthy:
  assumes "no_faults s" "store_ok s"
  shows "map_of (rev (map (\<lambda>c. (id_c c, c)) (contentStorage_getAllContent s))) =
         map_of (user_content_items s)"
proof -
  let ?xs = "rev (map (\<lambda>c. (id_c c, c)) (contentStorage_getAllContent s))"
  have d1: "distinct (map fst ?xs)"
    using getAllContent_stored(1) [OF assms] by (simp add: rev_map [symmetric] comp_def)
  have d2: "distinct (map fst (user_content_items s))"
    using assms(2) by (simp add: store_ok_def)
  have "set ?xs = (\<lambda>c. (id_c c, c)) ` snd ` set (user_content_items s)"
    by (simp add: getAllContent_stored(3) [OF assms])
  also have "\<dots> = set (user_content_items s)"
    using assms(2) by (force simp: store_ok_def image_iff)
  finally have "set ?xs = set (user_content_items s)" .
  with d1 d2 show ?thesis by (simp add: map_of_inject_set)
qed

lemma merge_loop_healthy:
  assumes "no_faults s" "distinct (map id_c rs)"
  shows "\<exists>s'. merge_loop m rs s = (None, s') \<and> no_faults s'
       \<and> (\<forall>r\<in>set rs. map_of (user_content_items s') (id_c r) =
             (case m (id_c r) of
                None \<Rightarrow> Some (r\<lparr>sync_status := Some Synced\<rparr>)
              | Some l \<Rightarrow> if updated_at r > updated_at l
                          then Some (r\<lparr>sync_status := Some Synced\<rparr>)
                          else map_of (user_content_items s) (id_c r)))
       \<and> (\<forall>i. i \<notin> id_c ` set rs \<longrightarrow>
             map_of (user_content_items s') i = map_of (user_content_items s) i)"
  using assms
proof (induction rs arbitrary: s)
  case Nil
  then show ?case by simp
next
  case (Cons r rs)
  have notin: "id_c r \<notin> id_c ` set rs" and dist: "distinct (map id_c rs)"
    using Cons.prems(2) by auto
  let ?take = "case m (id_c r) of None \<Rightarrow> True | Some l \<Rightarrow> updated_at r > updated_at l"
  define s1 where "s1 =
            (if ?take
             then s\<lparr>user_content_items :=
                     AList.update (id_c r) (r\<lparr>sync_status := Some Synced\<rparr>) (user_content_items s)\<rparr>
             else s)"
  have nf1: "no_faults s1" using Cons.prems(1) by (simp add: s1_def no_faults_def)
  have step: "merge_loop m (r # rs) s = merge_loop m rs s1"
    using saveContent_healthy [OF Cons.prems(1), of "r\<lparr>sync_status := Some Synced\<rparr>"]
    by (simp add: s1_def)
  have look1: "map_of (user_content_items s1) =
      (if ?take then (map_of (user_content_items s))(id_c r \<mapsto> r\<lparr>sync_status := Some Synced\<rparr>)
       else map_of (user_content_items s))"
    by (simp add: s1_def update_conv')
  from Cons.IH [OF nf1 dist] obtain s' where
    loop: "merge_loop m rs s1 = (None, s')" "no_faults s'"
    and after: "\<forall>r\<in>set rs. map_of (user_content_items s') (id_c r) =
             (case m (id_c r) of
                None \<Rightarrow> Some (r\<lparr>sync_status := Some Synced\<rparr>)
              | Some l \<Rightarrow> if updated_at r > updated_at l
                          then Some (r\<lparr>sync_status := Some Synced\<rparr>)
                          else map_of (user_content_items s1) (id_c r))"
      "\<forall>i. i \<notin> id_c ` set rs \<longrightarrow>
             map_of (user_content_items s') i = map_of (user_content_items s1) i"
    by blast
  have a: "map_of (user_content_items s') (id_c r) =
             (case m (id_c r) of
                None \<Rightarrow> Some (r\<lparr>sync_status := Some Synced\<rparr>)
              | Some l \<Rightarrow> if updated_at r > updated_at l
                          then Some (r\<lparr>sync_status := Some Synced\<rparr>)
                          else map_of (user_content_items s) (id_c r))"
    using after(2) notin by (simp add: look1 split: option.splits)
  have b: "map_of (user_content_items s') (id_c r') =
             (case m (id_c r') of
                None \<Rightarrow> Some (r'\<lparr>sync_status := Some Synced\<rparr>)
              | Some l \<Rightarrow> if updated_at r' > updated_at l
                          then Some (r'\<lparr>sync_status := Some Synced\<rparr>)
                          else map_of (user_content_items s) (id_c r'))"
    if "r' \<in> set rs" for r'
  proof -
    have "id_c r' \<noteq> id_c r" using that notin by (metis imageI)
    then have "map_of (user_content_items s1) (id_c r') = map_of (user_content_items s) (id_c r')"
      by (simp add: look1)
    with after(1) that show ?thesis by (simp split: option.splits)
  qed
  have c: "\<forall>i. i \<notin> id_c ` set (r # rs) \<longrightarrow>
             map_of (user_content_items s') i = map_of (user_content_items s) i"
    using after(2) by (simp add: look1)
  show ?case
    using step loop a b c by (intro exI [of _ s']) simp
qed

subsection \<open>What no operation of a cycle changes\<close>

text \<open>
  These hold in every state, also when the store rejects reads or writes: the
  persisted \<^verbatim>\<open>is_online\<close>, as \<^verbatim>\<open>getSyncStatus\<close> reads it, and the two reachability
  flags are the same before and after each step of a sync cycle.
\<close>

lemma saveSyncStatus_online:
  assumes "syncStorage_saveSyncStatus p s = Inr s'"
    and "is_online_p p = None \<or> is_online_p p = Some (is_online (syncStorage_getSyncStatus s))"
  shows "getItem_error s' = getItem_error s \<and>
         is_online (syncStorage_getSyncStatus s') = is_online (syncStorage_getSyncStatus s)"
  using assms
  by (cases "setItem_error s SYNC_STATUS"; cases "getItem_error s SYNC_STATUS")
     (auto simp: syncStorage_saveSyncStatus_def syncStorage_getSyncStatus_def spread_def Let_def)

lemma removeFromPending_online:
  assumes "syncStorage_removeFromPending i s = Inr s'"
  shows "getItem_error s' = getItem_error s \<and>
         is_online (syncStorage_getSyncStatus s') = is_online (syncStorage_getSyncStatus s)"
proof -
  let ?status = "syncStorage_getSyncStatus s"
  let ?p = "whole (?status\<lparr>pending_uploads := filter (\<lambda>j. j \<noteq> i) (pending_uploads ?status),
                           pending_deletions := filter (\<lambda>j. j \<noteq> i) (pending_deletions ?status)\<rparr>)"
  have "syncStorage_saveSyncStatus ?p s = Inr s'"
    using assms by (simp add: syncStorage_removeFromPending_def Let_def)
  then show ?thesis
    by (rule saveSyncStatus_online) (simp add: whole_def)
qed

lemma updateLastSync_online:
  assumes "syncStorage_updateLastSync now s = Inr s'"
  shows "getItem_error s' = getItem_error s \<and>
         is_online (syncStorage_getSyncStatus s') = is_online (syncStorage_getSyncStatus s)"
  using assms unfolding syncStorage_updateLastSync_def
  by (rule saveSyncStatus_online) simp

lemma saveContent_online:
  assumes "contentStorage_saveContent c s = Inr s'"
  shows "getItem_error s' = getItem_error s \<and>
         is_online (syncStorage_getSyncStatus s') = is_online (syncStorage_getSyncStatus s)"
  using assms
  by (auto simp: contentStorage_saveContent_def syncStorage_getSyncStatus_def split: option.splits)

lemma updateSyncStatus_online:
  assumes "contentStorage_updateSyncStatus i st s = Inr s'"
  shows "getItem_error s' = getItem_error s \<and>
         is_online (syncStorage_getSyncStatus s') = is_online (syncStorage_getSyncStatus s)"
  using assms saveContent_online
  by (auto simp: contentStorage_updateSyncStatus_def split: option.splits)

lemma saveContentCache_online:
  assumes "cacheStorage_saveContentCache cs a now s = Inr s'"
  shows "getItem_error s' = getItem_error s \<and>
         is_online (syncStorage_getSyncStatus s') = is_online (syncStorage_getSyncStatus s)"
  using assms
  by (auto simp: cacheStorage_saveContentCache_def syncStorage_getSyncStatus_def Let_def
      split: option.splits)

lemma upload_try_online:
  assumes "upload_try remote c w = Inr w' \<or> upload_try remote c w = Inl (e, w')"
  shows "getItem_error (storage w') = getItem_error (storage w) \<and>
         is_online (syncStorage_getSyncStatus (storage w')) =
           is_online (syncStorage_getSyncStatus (storage w)) \<and>
         isOnline w' = isOnline w \<and> globalStore w' = globalStore w"
proof (cases "thrown_by (createARContent remote c)")
  case (Some e')
  with assms show ?thesis by (auto simp: upload_try_def call_remote_def)
next
  case None
  show ?thesis
  proof (cases "contentStorage_updateSyncStatus (id_c c) Synced (storage w)")
    case (Inl e')
    with assms None show ?thesis by (auto simp: upload_try_def call_remote_def)
  next
    case (Inr s2)
    note a = updateSyncStatus_online [OF Inr]
    show ?thesis
    proof (cases "syncStorage_removeFromPending (id_c c) s2")
      case (Inl e')
      with assms None Inr a show ?thesis by (auto simp: upload_try_def call_remote_def)
    next
      case r: (Inr s3)
      from removeFromPending_online [OF r] assms None Inr a show ?thesis
        by (auto simp: upload_try_def call_remote_def r)
    qed
  qed
qed

lemma upload_one_online:
  assumes "upload_one remote c (r, w) = (t, r', w')"
  shows "getItem_error (storage w') = getItem_error (storage w) \<and>
         is_online (syncStorage_getSyncStatus (storage w')) =
           is_online (syncStorage_getSyncStatus (storage w)) \<and>
         isOnline w' = isOnline w \<and> globalStore w' = globalStore w"
proof (cases "upload_try remote c w")
  case (Inr w1)
  with assms upload_try_online [of remote c w w1] show ?thesis
    by (auto simp: upload_one_def)
next
  case (Inl ew)
  obtain e w1 where ew: "ew = (e, w1)" by (cases ew)
  from upload_try_online [of remote c w w1 e] Inl ew
  have a: "getItem_error (storage w1) = getItem_error (storage w) \<and>
         is_online (syncStorage_getSyncStatus (storage w1)) =
           is_online (syncStorage_getSyncStatus (storage w)) \<and>
         isOnline w1 = isOnline w \<and> globalStore w1 = globalStore w" by simp
  show ?thesis
  proof (cases "contentStorage_updateSyncStatus (id_c c) Failed (storage w1)")
    case l: (Inl e2)
    with assms Inl ew a show ?thesis by (auto simp: upload_one_def)
  next
    case r: (Inr s')
    from updateSyncStatus_online [OF r] assms Inl ew a show ?thesis
      by (auto simp: upload_one_def r)
  qed
qed

lemma upload_loop_online:
  assumes "upload_loop remote cs (r, w) = (t, r', w')"
  shows "getItem_error (storage w') = getItem_error (storage w) \<and>
         is_online (syncStorage_getSyncStatus (storage w')) =
           is_online (syncStorage_getSyncStatus (storage w)) \<and>
         isOnline w' = isOnline w \<and> globalStore w' = globalStore w"
  using assms
proof (induction cs arbitrary: r w)
  case Nil
  then show ?case by simp
next
  case (Cons c cs)
  obtain t1 r1 w1 where one: "upload_one remote c (r, w) = (t1, r1, w1)"
    by (cases "upload_one remote c (r, w)")
  note a = upload_one_online [OF one]
  show ?case
  proof (cases t1)
    case None
    with Cons.prems one have "upload_loop remote cs (r1, w1) = (t, r', w')" by simp
    from Cons.IH [OF this] a show ?thesis by simp
  next
    case (Some e)
    with Cons.prems one a show ?thesis by auto
  qed
qed

lemma merge_loop_online:
  assumes "merge_loop m rs s = (t, s')"
  shows "getItem_error s' = getItem_error s \<and>
         is_online (syncStorage_getSyncStatus s') = is_online (syncStorage_getSyncStatus s)"
  using assms
proof (induction rs arbitrary: s)
  case Nil
  then show ?case by simp
next
  case (Cons r rs)
  show ?case
  proof (cases "case m (id_c r) of None \<Rightarrow> True | Some l \<Rightarrow> updated_at r > updated_at l")
    case False
    with Cons.prems have "merge_loop m rs s = (t, s')" by simp
    then show ?thesis by (rule Cons.IH)
  next
    case True
    show ?thesis
    proof (cases "contentStorage_saveContent (r\<lparr>sync_status := Some Synced\<rparr>) s")
      case (Inl e)
      with Cons.prems True show ?thesis by simp
    next
      case (Inr s1)
      with Cons.prems True have "merge_loop m rs s1 = (t, s')" by simp
      from Cons.IH [OF this] saveContent_online [OF Inr] show ?thesis by simp
    qed
  qed
qed

lemma download_user_online:
  assumes "download_user remote (r, w) = (t, r', w')"
  shows "getItem_error (storage w') = getItem_error (storage w) \<and>
         is_online (syncStorage_getSyncStatus (storage w')) =
           is_online (syncStorage_getSyncStatus (storage w)) \<and>
         isOnline w' = isOnline w \<and>
         app_isOnline (globalStore w') = app_isOnline (globalStore w)"
proof (cases "getUserARContent remote")
  case (Rejected e)
  with assms show ?thesis by (auto simp: download_user_def call_remote_def)
next
  case (Response d err)
  show ?thesis
  proof (cases "\<exists>userContent. d = Some userContent \<and> err = None")
    case False
    with assms Response show ?thesis
      by (cases d; cases err) (auto simp: download_user_def call_remote_def)
  next
    case True
    then obtain userContent where d: "d = Some userContent" "err = None" by blast
    obtain t1 s1 where m: "SyncManager_mergeRemoteContent userContent (storage w) = (t1, s1)"
      by (cases "SyncManager_mergeRemoteContent userContent (storage w)")
    then have "merge_loop (map_of (rev (map (\<lambda>c. (id_c c, c)) (contentStorage_getAllContent (storage w)))))
        userContent (storage w) = (t1, s1)"
      by (simp add: SyncManager_mergeRemoteContent_def)
    from merge_loop_online [OF this] assms Response d m show ?thesis
      by (cases t1) (auto simp: download_user_def call_remote_def
          storeActions_updateLocalContent_array_def)
  qed
qed

lemma download_nearby_online:
  assumes "download_nearby remote now (r, w) = (t, r', w')"
  shows "getItem_error (storage w') = getItem_error (storage w) \<and>
         is_online (syncStorage_getSyncStatus (storage w')) =
           is_online (syncStorage_getSyncStatus (storage w)) \<and>
         isOnline w' = isOnline w \<and>
         app_isOnline (globalStore w') = app_isOnline (globalStore w)"
proof (cases "ar_currentLocation (globalStore w)")
  case None
  with assms show ?thesis by (simp add: download_nearby_def)
next
  case (Some loc)
  obtain lat lng where loc: "loc = (lat, lng)" by (cases loc)
  show ?thesis
  proof (cases "getNearbyPublicARContent remote lat lng")
    case (Rejected e)
    with assms Some loc show ?thesis by (auto simp: download_nearby_def call_remote_def)
  next
    case (Response d err)
    show ?thesis
    proof (cases "\<exists>nearbyContent. d = Some nearbyContent \<and> err = None")
      case False
      with assms Some loc Response show ?thesis
        by (cases d; cases err) (auto simp: download_nearby_def call_remote_def)
    next
      case True
      then obtain nearbyContent where d: "d = Some nearbyContent" "err = None" by blast
      show ?thesis
      proof (cases "SyncManager_mergePublicContent nearbyContent now (storage w)")
        case (Inl e)
        with assms Some loc Response d show ?thesis
          by (auto simp: download_nearby_def call_remote_def)
      next
        case (Inr s1)
        then have "cacheStorage_saveContentCache nearbyContent default_maxAge now (storage w) = Inr s1"
          by (simp add: SyncManager_mergePublicContent_def)
        from saveContentCache_online [OF this] assms Some loc Response d Inr show ?thesis
          by (auto simp: download_nearby_def call_remote_def storeActions_updateNearbyContent_def)
      qed
    qed
  qed
qed

lemma downloadRemoteContent_online:
  assumes "SyncManager_downloadRemoteContent remote now (r, w) = (r', w')"
  shows "getItem_error (storage w') = getItem_error (storage w) \<and>
         is_online (syncStorage_getSyncStatus (storage w')) =
           is_online (syncStorage_getSyncStatus (storage w)) \<and>
         isOnline w' = isOnline w \<and>
         app_isOnline (globalStore w') = app_isOnline (globalStore w)"
proof (cases "download_user remote (r, w)")
  case (fields t r1 w1)
  note u = download_user_online [OF fields]
  show ?thesis
  proof (cases t)
    case (Some e)
    with assms fields u show ?thesis
      by (simp add: SyncManager_downloadRemoteContent_def)
  next
    case None
    obtain t2 r2 w2 where n: "download_nearby remote now (r1, w1) = (t2, r2, w2)"
      by (cases "download_nearby remote now (r1, w1)")
    from download_nearby_online [OF n] u assms fields None n show ?thesis
      by (cases t2) (simp_all add: SyncManager_downloadRemoteContent_def)
  qed
qed

lemma sync_try_online:
  assumes "sync_try remote now (r, w) = (t, r', w')"
  shows "is_online (syncStorage_getSyncStatus (storage w')) =
           is_online (syncStorage_getSyncStatus (storage w)) \<and>
         isOnline w' = isOnline w \<and>
         app_isOnline (globalStore w') = app_isOnline (globalStore w)"
proof -
  obtain t1 r1 w1 where up: "SyncManager_uploadPendingContent remote r w = (t1, r1, w1)"
    by (cases "SyncManager_uploadPendingContent remote r w")
  then have "upload_loop remote (contentStorage_getPendingSyncContent (storage w)) (r, w) = (t1, r1, w1)"
    by (simp add: SyncManager_uploadPendingContent_def)
  note a = upload_loop_online [OF this]
  show ?thesis
  proof (cases t1)
    case (Some e)
    with assms up a show ?thesis by (auto simp: sync_try_def)
  next
    case None
    obtain r2 w2 where d: "SyncManager_downloadRemoteContent remote now (r1, w1) = (r2, w2)"
      by (cases "SyncManager_downloadRemoteContent remote now (r1, w1)")
    note b = downloadRemoteContent_online [OF d]
    obtain s3 where l: "syncStorage_updateLastSync now (storage w2) = Inr s3"
      using updateLastSync_resolves by blast
    from updateLastSync_online [OF l] assms up None d a b show ?thesis
      by (auto simp: sync_try_def l)
  qed
qed

lemma syncContent_online:
  "is_online (syncStorage_getSyncStatus (storage (snd (SyncManager_syncContent remote now w)))) =
     is_online (syncStorage_getSyncStatus (storage w)) \<and>
   isOnline (snd (SyncManager_syncContent remote now w)) = isOnline w \<and>
   app_isOnline (globalStore (snd (SyncManager_syncContent remote now w))) =
     app_isOnline (globalStore w)"
proof (cases "isSyncing w \<or> \<not> isOnline w")
  case True
  then show ?thesis by (simp add: SyncManager_syncContent_def)
next
  case False
  let ?w1 = "w\<lparr>isSyncing := True,
               globalStore := storeActions_setSyncStatus Syncing (globalStore w)\<rparr>"
  obtain t r2 w2 where st: "sync_try remote now (initial_SyncResult, ?w1) = (t, r2, w2)"
    by (cases "sync_try remote now (initial_SyncResult, ?w1)")
  from sync_try_online [OF st] False st show ?thesis
    by (simp add: SyncManager_syncContent_def Let_def storeActions_setSyncStatus_def)
qed

lemma stored_pending_listed:
  assumes "no_faults s" "store_ok s"
    and "contentStorage_getContentById i s = Some c" "sync_status c = Some Pending"
  shows "c \<in> set (contentStorage_getPendingSyncContent s)"
proof -
  have "map_of (user_content_items s) i = Some c"
    using assms(3) by (simp add: getContentById_healthy [OF assms(1)])
  then have "(i, c) \<in> set (user_content_items s)" by (rule map_of_SomeD)
  then have "c \<in> snd ` set (user_content_items s)" by force
  then show ?thesis
    using assms(4) getAllContent_stored(3) [OF assms(1,2)]
    by (simp add: contentStorage_getPendingSyncContent_def)
qed

section \<open>The pending-operation queue\<close>

text \<open>
  Claim C1 says that after \<^verbatim>\<open>addPendingDeletion(id)\<close> the id is queued for deletion
  and no longer queued for upload. The first half holds; the second does not:
  \<^verbatim>\<open>addPendingDeletion\<close> only appends to \<^verbatim>\<open>pending_deletions\<close>. With \<open>a\<close> queued
  for upload, queuing its deletion leaves it in both lists.
\<close>

theorem addPendingDeletion_keeps_upload_counterexample:
  "''a'' \<in> set (pending_deletions (syncStorage_getSyncStatus (projr
       (syncStorage_addPendingDeletion ''a''
          (sample_storage
             (Some \<lparr>last_sync = None, pending_uploads = [''a''], pending_deletions = [],
                    is_online = True\<rparr>) None []))))) \<and>
   ''a'' \<in> set (pending_uploads (syncStorage_getSyncStatus (projr
       (syncStorage_addPendingDeletion ''a''
          (sample_storage
             (Some \<lparr>last_sync = None, pending_uploads = [''a''], pending_deletions = [],
                    is_online = True\<rparr>) None [])))))"
  by (simp add: run)

text \<open>
  Claim C1, amended. On a store whose reads and writes succeed, after
  \<^verbatim>\<open>addPendingDeletion(id)\<close> the id is a member of \<^verbatim>\<open>pending_deletions\<close> and
  \<^verbatim>\<open>pending_uploads\<close> is exactly what it was. The same holds after the
  orchestrator's \<^verbatim>\<open>deleteContent(id)\<close> while offline, or when the remote deletion
  call rejects. When online and the remote call resolves, \<^verbatim>\<open>removeFromPending\<close>
  clears the id from both lists.
\<close>

theorem addPendingDeletion_queues_and_keeps_uploads:
  assumes "no_faults (storage w)"
  shows "(\<exists>s'. syncStorage_addPendingDeletion i (storage w) = Inr s' \<and>
            i \<in> set (pending_deletions (syncStorage_getSyncStatus s')) \<and>
            pending_uploads (syncStorage_getSyncStatus s') =
              pending_uploads (syncStorage_getSyncStatus (storage w)))
       \<and> (\<not> isOnline w \<or> (\<exists>e. deleteARContent remote i = Rejected e) \<longrightarrow>
            fst (SyncManager_deleteContent remote i w) = None \<and>
            i \<in> set (pending_deletions (syncStorage_getSyncStatus
                        (storage (snd (SyncManager_deleteContent remote i w))))) \<and>
            pending_uploads (syncStorage_getSyncStatus
                        (storage (snd (SyncManager_deleteContent remote i w)))) =
              pending_uploads (syncStorage_getSyncStatus (storage w)))
       \<and> (isOnline w \<and> (\<exists>d err. deleteARContent remote i = Response d err) \<longrightarrow>
            fst (SyncManager_deleteContent remote i w) = None \<and>
            i \<notin> set (pending_deletions (syncStorage_getSyncStatus
                        (storage (snd (SyncManager_deleteContent remote i w))))) \<and>
            pending_uploads (syncStorage_getSyncStatus
                        (storage (snd (SyncManager_deleteContent remote i w)))) =
              filter (\<lambda>j. j \<noteq> i) (pending_uploads (syncStorage_getSyncStatus (storage w))))"
proof -
  have g: "getItem_error (storage w) SYNC_STATUS = None"
    and p: "setItem_error (storage w) SYNC_STATUS = None"
    and p': "setItem_error (storage w) = (\<lambda>k. None)"
    using assms by (simp_all add: no_faults_def)
  from addPendingDeletion_healthy [OF g p, of i] obtain s1 where
    s1: "syncStorage_addPendingDeletion i (storage w) = Inr s1"
      "getItem_error s1 = getItem_error (storage w)"
      "setItem_error s1 = setItem_error (storage w)"
      "i \<in> set (pending_deletions (syncStorage_getSyncStatus s1))"
      "pending_uploads (syncStorage_getSyncStatus s1) =
         pending_uploads (syncStorage_getSyncStatus (storage w))"
    by blast
  from updateSyncStatus_healthy [of s1 i Failed] s1 p' obtain s2 where
    s2: "contentStorage_updateSyncStatus i Failed s1 = Inr s2"
      "setItem_error s2 = (\<lambda>k. None)" "getItem_error s2 = getItem_error s1"
    by auto
  have same: "syncStorage_getSyncStatus s2 = syncStorage_getSyncStatus s1"
    using s2(1) by (rule getSyncStatus_updateSyncStatus)
  from removeFromPending_healthy [of s2 i] s2 s1 g obtain s4 where
    s4: "syncStorage_removeFromPending i s2 = Inr s4"
      "pending_deletions (syncStorage_getSyncStatus s4) =
         filter (\<lambda>j. j \<noteq> i) (pending_deletions (syncStorage_getSyncStatus s2))"
      "pending_uploads (syncStorage_getSyncStatus s4) =
         filter (\<lambda>j. j \<noteq> i) (pending_uploads (syncStorage_getSyncStatus s2))"
    by auto
  have first: "\<exists>s'. syncStorage_addPendingDeletion i (storage w) = Inr s' \<and>
            i \<in> set (pending_deletions (syncStorage_getSyncStatus s')) \<and>
            pending_uploads (syncStorage_getSyncStatus s') =
              pending_uploads (syncStorage_getSyncStatus (storage w))"
    using s1 by blast
  have queued: "fst (SyncManager_deleteContent remote i w) = None \<and>
            i \<in> set (pending_deletions (syncStorage_getSyncStatus
                        (storage (snd (SyncManager_deleteContent remote i w))))) \<and>
            pending_uploads (syncStorage_getSyncStatus
                        (storage (snd (SyncManager_deleteContent remote i w)))) =
              pending_uploads (syncStorage_getSyncStatus (storage w))"
    if "\<not> isOnline w \<or> (\<exists>e. deleteARContent remote i = Rejected e)"
    using that s1 s2(1) same
    by (auto simp: SyncManager_deleteContent_def call_remote_def Let_def)
  have cleared: "fst (SyncManager_deleteContent remote i w) = None \<and>
            i \<notin> set (pending_deletions (syncStorage_getSyncStatus
                        (storage (snd (SyncManager_deleteContent remote i w))))) \<and>
            pending_uploads (syncStorage_getSyncStatus
                        (storage (snd (SyncManager_deleteContent remote i w)))) =
              filter (\<lambda>j. j \<noteq> i) (pending_uploads (syncStorage_getSyncStatus (storage w)))"
    if "isOnline w \<and> (\<exists>d err. deleteARContent remote i = Response d err)"
    using that s1 s2(1) same s4
    by (auto simp: SyncManager_deleteContent_def call_remote_def Let_def)
  from first queued cleared show ?thesis by blast
qed

theorem addPendingDeletion_queues_and_keeps_uploads_witness:
  "no_faults (storage (sample_world
      (sample_storage
         (Some \<lparr>last_sync = None, pending_uploads = [''a'', ''b''], pending_deletions = [],
                is_online = True\<rparr>) None [sample_item ''a'' ''u1'' 1 (Some Pending)])
      (Some ''u1'') False False)) \<and>
   pending_deletions (syncStorage_getSyncStatus (storage (snd
     (SyncManager_deleteContent (sample_remote []) ''a'' (sample_world
      (sample_storage
         (Some \<lparr>last_sync = None, pending_uploads = [''a'', ''b''], pending_deletions = [],
                is_online = True\<rparr>) None [sample_item ''a'' ''u1'' 1 (Some Pending)])
      (Some ''u1'') False False))))) = [''a''] \<and>
   pending_uploads (syncStorage_getSyncStatus (storage (snd
     (SyncManager_deleteContent (sample_remote []) ''a'' (sample_world
      (sample_storage
         (Some \<lparr>last_sync = None, pending_uploads = [''a'', ''b''], pending_deletions = [],
                is_online = True\<rparr>) None [sample_item ''a'' ''u1'' 1 (Some Pending)])
      (Some ''u1'') False False))))) = [''a'', ''b'']"
  using addPendingDeletion_queues_and_keeps_uploads
    [of "sample_world
      (sample_storage
         (Some \<lparr>last_sync = None, pending_uploads = [''a'', ''b''], pending_deletions = [],
                is_online = True\<rparr>) None [sample_item ''a'' ''u1'' 1 (Some Pending)])
      (Some ''u1'') False False" "''a''" "sample_remote []"]
  by (simp add: run)

section \<open>Single flight\<close>

text \<open>
  Claim C3. In every state in which \<^verbatim>\<open>isSyncing\<close> is true or \<^verbatim>\<open>isOnline\<close> is
  false, \<^verbatim>\<open>syncContent\<close> returns at once the result with \<^verbatim>\<open>success = false\<close>, the
  three counters at zero and the sentinel error, and the whole state (durable store
  with both pending lists, the content, the cache and \<^verbatim>\<open>last_sync\<close>; the reactive
  store; the flags; the calls made to the remote service) is the state it was.
\<close>

theorem syncContent_rejected_unchanged:
  "isSyncing w \<or> \<not> isOnline w \<Longrightarrow>
   SyncManager_syncContent remote now w =
     (\<lparr>success = False, uploaded = 0, downloaded = 0, failed = 0,
       errors = [''Sync already in progress or offline'']\<rparr>, w)"
  by (simp add: SyncManager_syncContent_def rejected_SyncResult_def)

theorem syncContent_rejected_unchanged_witness:
  "isSyncing (sample_world
       (sample_storage None None [sample_item ''a'' ''u1'' 1 (Some Pending)])
       (Some ''u1'') True True) \<and>
   SyncManager_syncContent (sample_remote []) 7
     (sample_world
       (sample_storage None None [sample_item ''a'' ''u1'' 1 (Some Pending)])
       (Some ''u1'') True True) =
     (\<lparr>success = False, uploaded = 0, downloaded = 0, failed = 0,
       errors = [''Sync already in progress or offline'']\<rparr>,
      sample_world
       (sample_storage None None [sample_item ''a'' ''u1'' 1 (Some Pending)])
       (Some ''u1'') True True)"
  using syncContent_rejected_unchanged
    [of "sample_world
       (sample_storage None None [sample_item ''a'' ''u1'' 1 (Some Pending)])
       (Some ''u1'') True True" "sample_remote []" 7]
  by (simp add: sample_world_def)

section \<open>The content cache\<close>

text \<open>
  Claim C10. For every stored snapshot and every read time \<open>now\<close>, on a store whose
  read and removal of the cache key succeed: if \<open>now - timestamp > maxAge\<close> the read
  returns the empty list and removes the snapshot, so that every later read finds
  none and returns the empty list; if \<open>now - timestamp \<le> maxAge\<close> the read returns the
  stored items and leaves the store as it is.
\<close>

theorem getContentCache_expiry:
  assumes "getItem_error s CONTENT_CACHE = None" "removeItem_error s CONTENT_CACHE = None"
    and "content_cache_item s = Some snap"
  shows "(now - timestamp snap > maxAge snap \<longrightarrow>
            cacheStorage_getContentCache now s = ([], s\<lparr>content_cache_item := None\<rparr>) \<and>
            (\<forall>later. cacheStorage_getContentCache later
                        (snd (cacheStorage_getContentCache now s)) =
                      ([], snd (cacheStorage_getContentCache now s))))
       \<and> (now - timestamp snap \<le> maxAge snap \<longrightarrow>
            cacheStorage_getContentCache now s = (contents snap, s))"
  using assms
  by (simp add: cacheStorage_getContentCache_def cacheStorage_clearContentCache_def)

theorem getContentCache_expiry_witness:
  "content_cache_item
     (sample_storage None
        (Some \<lparr>contents = [sample_item ''p'' ''u2'' 1 None], timestamp = 100, maxAge = 50\<rparr>) [])
     = Some \<lparr>contents = [sample_item ''p'' ''u2'' 1 None], timestamp = 100, maxAge = 50\<rparr> \<and>
   fst (cacheStorage_getContentCache 150
     (sample_storage None
        (Some \<lparr>contents = [sample_item ''p'' ''u2'' 1 None], timestamp = 100, maxAge = 50\<rparr>) []))
     = [sample_item ''p'' ''u2'' 1 None] \<and>
   fst (cacheStorage_getContentCache 151
     (sample_storage None
        (Some \<lparr>contents = [sample_item ''p'' ''u2'' 1 None], timestamp = 100, maxAge = 50\<rparr>) []))
     = [] \<and>
   content_cache_item (snd (cacheStorage_getContentCache 151
     (sample_storage None
        (Some \<lparr>contents = [sample_item ''p'' ''u2'' 1 None], timestamp = 100, maxAge = 50\<rparr>) [])))
     = None"
  using getContentCache_expiry
    [of "sample_storage None
        (Some \<lparr>contents = [sample_item ''p'' ''u2'' 1 None], timestamp = 100, maxAge = 50\<rparr>) []"
        "\<lparr>contents = [sample_item ''p'' ''u2'' 1 None], timestamp = 100, maxAge = 50\<rparr>" 150]
    getContentCache_expiry
    [of "sample_storage None
        (Some \<lparr>contents = [sample_item ''p'' ''u2'' 1 None], timestamp = 100, maxAge = 50\<rparr>) []"
        "\<lparr>contents = [sample_item ''p'' ''u2'' 1 None], timestamp = 100, maxAge = 50\<rparr>" 151]
  by (simp add: sample_storage_def)

section \<open>Failing writes\<close>

text \<open>
  Claim C7 says that every failing write to the durable store reaches the caller.
  \<^verbatim>\<open>contentStorage.saveContent\<close> rethrows; \<^verbatim>\<open>syncStorage.saveSyncStatus\<close> catches,
  logs and resolves. On a store whose \<^verbatim>\<open>setItem\<close> rejects with \<^verbatim>\<open>disk full\<close>, the
  write of the sync metadata resolves with the store unchanged, while the write of a
  content item rejects with that message.
\<close>

theorem saveSyncStatus_swallows_write_error:
  "syncStorage_saveSyncStatus
     \<lparr>last_sync_p = None, pending_uploads_p = Some [''a''], pending_deletions_p = None,
      is_online_p = None\<rparr>
     ((sample_storage None None [])\<lparr>setItem_error := (\<lambda>k. Some ''disk full'')\<rparr>)
   = Inr ((sample_storage None None [])\<lparr>setItem_error := (\<lambda>k. Some ''disk full'')\<rparr>)
  \<and> contentStorage_saveContent (sample_item ''a'' ''u1'' 1 (Some Pending))
     ((sample_storage None None [])\<lparr>setItem_error := (\<lambda>k. Some ''disk full'')\<rparr>)
   = Inl ''disk full''"
  by (simp add: run)

section \<open>Available content\<close>

text \<open>
  Claim C5 says that \<^verbatim>\<open>getAllAvailableContent\<close> leaves out every stored item whose
  \<^verbatim>\<open>sync_status\<close> is \<^verbatim>\<open>failed\<close>. The filter keeps an item when it belongs to the
  current user \<^emph>\<open>or\<close> is not failed, so the user's own tombstone \<open>B\<close> is returned
  next to the live item \<open>A\<close>.
\<close>

theorem getAllAvailableContent_returns_own_tombstone:
  "fst (SyncManager_getAllAvailableContent 7
     (sample_world
        (sample_storage None None
           [sample_item ''A'' ''u1'' 2 (Some Synced), sample_item ''B'' ''u1'' 1 (Some Failed)])
        (Some ''u1'') False False))
   = [sample_item ''A'' ''u1'' 2 (Some Synced), sample_item ''B'' ''u1'' 1 (Some Failed)]"
  by (simp add: run)

section \<open>The upload phase\<close>

text \<open>
  Claim C6. On a store whose reads and writes succeed, the upload phase runs through
  all pending items and no error leaves the loop. For every pending item whose push
  fails the item is marked \<^verbatim>\<open>failed\<close>, the \<^verbatim>\<open>failed\<close> counter goes up by one and one
  message \<^verbatim>\<open>Upload failed for <title>: <message>\<close> is appended; every pending item
  whose push succeeds is marked \<^verbatim>\<open>synced\<close> and counted in \<^verbatim>\<open>uploaded\<close>, whatever
  happened to the items before it. With three pending items and the push of one of
  them refused, the result has \<^verbatim>\<open>uploaded = 2\<close>, \<^verbatim>\<open>failed = 1\<close> and one error.
\<close>

theorem upload_failure_isolated:
  assumes "no_faults (storage w)" "store_ok (storage w)"
  shows "\<exists>w'. SyncManager_uploadPendingContent remote result w =
           (None,
            result\<lparr>uploaded := uploaded result +
                      length (filter (push_ok remote) (contentStorage_getPendingSyncContent (storage w))),
                   failed := failed result +
                      length (filter (\<lambda>c. \<not> push_ok remote c) (contentStorage_getPendingSyncContent (storage w))),
                   errors := errors result @
                      concat (map (\<lambda>c. case thrown_by (createARContent remote c) of
                                          None \<Rightarrow> []
                                        | Some e \<Rightarrow> [upload_failed_message c e])
                                (contentStorage_getPendingSyncContent (storage w)))\<rparr>, w')
         \<and> (\<forall>c\<in>set (contentStorage_getPendingSyncContent (storage w)).
               contentStorage_getContentById (id_c c) (storage w') =
                 Some (c\<lparr>sync_status := Some (if push_ok remote c then Synced else Failed)\<rparr>))"
proof -
  from upload_loop_healthy [OF assms(1) pending_stored [OF assms], of remote result]
  obtain w' where
    loop: "upload_loop remote (contentStorage_getPendingSyncContent (storage w)) (result, w) =
           (None,
            result\<lparr>uploaded := uploaded result +
                      length (filter (push_ok remote) (contentStorage_getPendingSyncContent (storage w))),
                   failed := failed result +
                      length (filter (\<lambda>c. \<not> push_ok remote c) (contentStorage_getPendingSyncContent (storage w))),
                   errors := errors result @
                      concat (map (\<lambda>c. case thrown_by (createARContent remote c) of
                                          None \<Rightarrow> []
                                        | Some e \<Rightarrow> [upload_failed_message c e])
                                (contentStorage_getPendingSyncContent (storage w)))\<rparr>, w')"
    and st: "\<forall>c\<in>set (contentStorage_getPendingSyncContent (storage w)).
               map_of (user_content_items (storage w')) (id_c c) =
                 Some (c\<lparr>sync_status := Some (if push_ok remote c then Synced else Failed)\<rparr>)"
    and nf: "no_faults (storage w')"
    by blast
  show ?thesis
    using loop st by (simp add: SyncManager_uploadPendingContent_def getContentById_healthy [OF nf])
qed


theorem upload_failure_isolated_witness:
  "no_faults (storage (sample_world
      (sample_storage None None
        [sample_item ''a'' ''u1'' 1 (Some Pending), sample_item ''b'' ''u1'' 2 (Some Pending),
         sample_item ''c'' ''u1'' 3 (Some Pending)]) (Some ''u1'') True False)) \<and>
   store_ok (storage (sample_world
      (sample_storage None None
        [sample_item ''a'' ''u1'' 1 (Some Pending), sample_item ''b'' ''u1'' 2 (Some Pending),
         sample_item ''c'' ''u1'' 3 (Some Pending)]) (Some ''u1'') True False)) \<and>
   fst (snd (SyncManager_uploadPendingContent (sample_remote [''b'']) initial_SyncResult
     (sample_world
      (sample_storage None None
        [sample_item ''a'' ''u1'' 1 (Some Pending), sample_item ''b'' ''u1'' 2 (Some Pending),
         sample_item ''c'' ''u1'' 3 (Some Pending)]) (Some ''u1'') True False))) =
     \<lparr>success = True, uploaded = 2, downloaded = 0, failed = 1,
      errors = [''Upload failed for Mill b: row rejected'']\<rparr>"
proof -
  let ?W = "sample_world
      (sample_storage None None
        [sample_item ''a'' ''u1'' 1 (Some Pending), sample_item ''b'' ''u1'' 2 (Some Pending),
         sample_item ''c'' ''u1'' 3 (Some Pending)]) (Some ''u1'') True False"
  let ?R = "sample_remote [''b'']"
  let ?P = "contentStorage_getPendingSyncContent (storage ?W)"
  have h: "no_faults (storage ?W)" "store_ok (storage ?W)"
    by (simp_all add: run)
  have p: "?P = [sample_item ''c'' ''u1'' 3 (Some Pending),
                 sample_item ''b'' ''u1'' 2 (Some Pending),
                 sample_item ''a'' ''u1'' 1 (Some Pending)]"
    by (simp add: run)
  have e: "initial_SyncResult
             \<lparr>uploaded := uploaded initial_SyncResult + length (filter (push_ok ?R) ?P),
              failed := failed initial_SyncResult +
                        length (filter (\<lambda>c. \<not> push_ok ?R c) ?P),
              errors := errors initial_SyncResult @
                        concat (map (\<lambda>c. case thrown_by (createARContent ?R c) of
                                            None \<Rightarrow> []
                                          | Some e \<Rightarrow> [upload_failed_message c e]) ?P)\<rparr> =
           \<lparr>success = True, uploaded = 2, downloaded = 0, failed = 1,
            errors = [''Upload failed for Mill b: row rejected'']\<rparr>"
    unfolding p by (simp add: run)
  from upload_failure_isolated [OF h, of ?R initial_SyncResult] obtain w' where
    "SyncManager_uploadPendingContent ?R initial_SyncResult ?W =
       (None,
        initial_SyncResult
             \<lparr>uploaded := uploaded initial_SyncResult + length (filter (push_ok ?R) ?P),
              failed := failed initial_SyncResult +
                        length (filter (\<lambda>c. \<not> push_ok ?R c) ?P),
              errors := errors initial_SyncResult @
                        concat (map (\<lambda>c. case thrown_by (createARContent ?R c) of
                                            None \<Rightarrow> []
                                          | Some e \<Rightarrow> [upload_failed_message c e]) ?P)\<rparr>, w')"
    by blast
  then have "fst (snd (SyncManager_uploadPendingContent ?R initial_SyncResult ?W)) =
     \<lparr>success = True, uploaded = 2, downloaded = 0, failed = 1,
      errors = [''Upload failed for Mill b: row rejected'']\<rparr>"
    by (simp only: e fst_conv snd_conv)
  with h show ?thesis by (simp only: simp_thms)
qed

text \<open>
  Claim C4 says that the upload phase of an admitted cycle pushes every id of the
  pending-uploads set, so that an upload that failed is tried again in the next
  cycle. The loop runs over the stored items whose \<^verbatim>\<open>sync_status\<close> is
  \<^verbatim>\<open>pending\<close>, and a failed upload leaves the item \<^verbatim>\<open>failed\<close>. Item \<open>a\<close> is refused
  in a first cycle; its id stays in \<^verbatim>\<open>pending_uploads\<close>, and a second admitted cycle
  against a service that accepts everything pushes nothing.
\<close>

theorem failed_upload_not_retried_counterexample:
  "''a'' \<in> set (pending_uploads (syncStorage_getSyncStatus (storage (snd
      (SyncManager_syncContent (sample_remote [''a'']) 7
         (sample_world
            (sample_storage
               (Some \<lparr>last_sync = None, pending_uploads = [''a''], pending_deletions = [],
                      is_online = True\<rparr>) None [sample_item ''a'' ''u1'' 1 (Some Pending)])
            (Some ''u1'') True False)))))) \<and>
   created (remote_log (snd
      (SyncManager_syncContent (sample_remote []) 8 (snd
      (SyncManager_syncContent (sample_remote [''a'']) 7
         (sample_world
            (sample_storage
               (Some \<lparr>last_sync = None, pending_uploads = [''a''], pending_deletions = [],
                      is_online = True\<rparr>) None [sample_item ''a'' ''u1'' 1 (Some Pending)])
            (Some ''u1'') True False)))))) =
   created (remote_log (snd
      (SyncManager_syncContent (sample_remote [''a'']) 7
         (sample_world
            (sample_storage
               (Some \<lparr>last_sync = None, pending_uploads = [''a''], pending_deletions = [],
                      is_online = True\<rparr>) None [sample_item ''a'' ''u1'' 1 (Some Pending)])
            (Some ''u1'') True False))))"
  by (simp add: run)

text \<open>
  Claim C4, amended. In every admitted sync cycle on a store whose reads and writes
  succeed, the pushes the cycle attempts are exactly the stored items whose
  \<^verbatim>\<open>sync_status\<close> is \<^verbatim>\<open>pending\<close>, each once, in the order of \<^verbatim>\<open>getAllContent\<close>. The
  \<^verbatim>\<open>pending_uploads\<close> set is not read: a stored item that is not \<^verbatim>\<open>pending\<close>, such as
  one an earlier cycle marked \<^verbatim>\<open>failed\<close>, is not pushed, whether or not its id is in
  that set.
\<close>

theorem upload_attempts_items_with_pending_status:
  assumes "\<not> isSyncing w" "isOnline w" "no_faults (storage w)" "store_ok (storage w)"
  shows "created (remote_log (snd (SyncManager_syncContent remote now w))) =
           created (remote_log w) @ contentStorage_getPendingSyncContent (storage w)
       \<and> (\<forall>c\<in>set (contentStorage_getPendingSyncContent (storage w)).
             sync_status c = Some Pending \<and>
             contentStorage_getContentById (id_c c) (storage w) = Some c)
       \<and> (\<forall>i c. contentStorage_getContentById i (storage w) = Some c \<and>
                 sync_status c = Some Pending \<longrightarrow>
                 c \<in> set (contentStorage_getPendingSyncContent (storage w)))
       \<and> (\<forall>i c. contentStorage_getContentById i (storage w) = Some c \<and>
                 sync_status c \<noteq> Some Pending \<longrightarrow>
                 i \<notin> id_c ` set (contentStorage_getPendingSyncContent (storage w)))"
proof -
  let ?w1 = "w\<lparr>isSyncing := True,
               globalStore := storeActions_setSyncStatus Syncing (globalStore w)\<rparr>"
  have h: "no_faults (storage ?w1)" "store_ok (storage ?w1)" using assms by simp_all
  obtain t r2 w2 where st: "sync_try remote now (initial_SyncResult, ?w1) = (t, r2, w2)"
    by (cases "sync_try remote now (initial_SyncResult, ?w1)")
  from sync_try_created [OF h, of remote now initial_SyncResult] st
  have log2: "created (remote_log w2) =
      created (remote_log w) @ contentStorage_getPendingSyncContent (storage w)"
    by simp
  have one: "created (remote_log (snd (SyncManager_syncContent remote now w))) =
           created (remote_log w) @ contentStorage_getPendingSyncContent (storage w)"
    using assms(1,2) st log2 by (simp add: SyncManager_syncContent_def Let_def)
  have two: "\<forall>c\<in>set (contentStorage_getPendingSyncContent (storage w)).
             sync_status c = Some Pending \<and>
             contentStorage_getContentById (id_c c) (storage w) = Some c"
    using pending_stored(2) [OF assms(3,4)]
    by (simp add: getContentById_healthy [OF assms(3)] contentStorage_getPendingSyncContent_def)
  have three: "c \<in> set (contentStorage_getPendingSyncContent (storage w))"
    if "contentStorage_getContentById i (storage w) = Some c \<and> sync_status c = Some Pending"
    for i c
    using that stored_pending_listed [OF assms(3,4)] by blast
  have four: "i \<notin> id_c ` set (contentStorage_getPendingSyncContent (storage w))"
    if "contentStorage_getContentById i (storage w) = Some c \<and> sync_status c \<noteq> Some Pending"
    for i c
    using that two by fastforce
  from one two three four show ?thesis by blast
qed

theorem upload_attempts_items_with_pending_status_witness:
  "\<not> isSyncing (sample_world
      (sample_storage
         (Some \<lparr>last_sync = None, pending_uploads = [''a'', ''b''], pending_deletions = [],
                is_online = True\<rparr>) None
         [sample_item ''a'' ''u1'' 1 (Some Failed), sample_item ''b'' ''u1'' 2 (Some Pending)])
      (Some ''u1'') True False) \<and>
   isOnline (sample_world
      (sample_storage
         (Some \<lparr>last_sync = None, pending_uploads = [''a'', ''b''], pending_deletions = [],
                is_online = True\<rparr>) None
         [sample_item ''a'' ''u1'' 1 (Some Failed), sample_item ''b'' ''u1'' 2 (Some Pending)])
      (Some ''u1'') True False) \<and>
   no_faults (storage (sample_world
      (sample_storage
         (Some \<lparr>last_sync = None, pending_uploads = [''a'', ''b''], pending_deletions = [],
                is_online = True\<rparr>) None
         [sample_item ''a'' ''u1'' 1 (Some Failed), sample_item ''b'' ''u1'' 2 (Some Pending)])
      (Some ''u1'') True False)) \<and>
   store_ok (storage (sample_world
      (sample_storage
         (Some \<lparr>last_sync = None, pending_uploads = [''a'', ''b''], pending_deletions = [],
                is_online = True\<rparr>) None
         [sample_item ''a'' ''u1'' 1 (Some Failed), sample_item ''b'' ''u1'' 2 (Some Pending)])
      (Some ''u1'') True False)) \<and>
   created (remote_log (snd (SyncManager_syncContent (sample_remote []) 7 (sample_world
      (sample_storage
         (Some \<lparr>last_sync = None, pending_uploads = [''a'', ''b''], pending_deletions = [],
                is_online = True\<rparr>) None
         [sample_item ''a'' ''u1'' 1 (Some Failed), sample_item ''b'' ''u1'' 2 (Some Pending)])
      (Some ''u1'') True False)))) = [sample_item ''b'' ''u1'' 2 (Some Pending)]"
proof -
  let ?W = "sample_world
      (sample_storage
         (Some \<lparr>last_sync = None, pending_uploads = [''a'', ''b''], pending_deletions = [],
                is_online = True\<rparr>) None
         [sample_item ''a'' ''u1'' 1 (Some Failed), sample_item ''b'' ''u1'' 2 (Some Pending)])
      (Some ''u1'') True False"
  have h: "\<not> isSyncing ?W" "isOnline ?W" "no_faults (storage ?W)" "store_ok (storage ?W)"
    by (simp_all add: run)
  have e: "created (remote_log ?W) @ contentStorage_getPendingSyncContent (storage ?W) =
           [sample_item ''b'' ''u1'' 2 (Some Pending)]"
    by (simp add: run)
  from upload_attempts_items_with_pending_status [OF h, of "sample_remote []" 7]
  have "created (remote_log (snd (SyncManager_syncContent (sample_remote []) 7 ?W))) =
           created (remote_log ?W) @ contentStorage_getPendingSyncContent (storage ?W)"
    by (rule conjunct1)
  with h e show ?thesis by (simp only: simp_thms)
qed



text \<open>
  Claim C8 says that once the upload phase has pushed a locally created item, the
  local record is stored under, or carries, the id the remote service assigned.
  \<^verbatim>\<open>uploadPendingContent\<close> reads only \<^verbatim>\<open>error\<close> from the reply. An item created
  while online is pushed at once; the service answers with a row whose id is
  \<^verbatim>\<open>srv_local_17_abc\<close>, and the store afterwards holds the item under
  \<^verbatim>\<open>local_17_abc\<close>, with that id, and nothing under the server's id.
\<close>

theorem remote_id_not_adopted_counterexample:
  "createARContent (sample_remote [])
     ((sample_item ''x'' ''u0'' 0 None)
        \<lparr>id_c := ''local_17_abc'', user_id := ''u1'', created_at := 17, updated_at := 17,
         sync_status := Some Pending, local_id := Some ''local_17_abc''\<rparr>) =
     Response (Some ((sample_item ''x'' ''u0'' 0 None)
        \<lparr>id_c := ''srv_local_17_abc'', user_id := ''u1'', created_at := 17, updated_at := 17,
         sync_status := Some Pending, local_id := Some ''local_17_abc''\<rparr>)) None \<and>
   contentStorage_getContentById ''local_17_abc'' (storage (snd
     (SyncManager_createLocalContent (sample_remote []) 17 ''17'' ''abc''
        (sample_item ''x'' ''u0'' 0 None)
        (sample_world (sample_storage None None []) (Some ''u1'') True False)))) =
     Some ((sample_item ''x'' ''u0'' 0 None)
        \<lparr>id_c := ''local_17_abc'', user_id := ''u1'', created_at := 17, updated_at := 17,
         sync_status := Some Synced, local_id := Some ''local_17_abc''\<rparr>) \<and>
   contentStorage_getContentById ''srv_local_17_abc'' (storage (snd
     (SyncManager_createLocalContent (sample_remote []) 17 ''17'' ''abc''
        (sample_item ''x'' ''u0'' 0 None)
        (sample_world (sample_storage None None []) (Some ''u1'') True False)))) = None"
  by (simp add: run Let_def)

text \<open>
  Claim C8, amended. A locally created item keeps its locally generated id. On a
  store whose reads and writes succeed, after the upload phase every pending item
  whose push succeeded is stored under its own id as the same item with only
  \<^verbatim>\<open>sync_status\<close> changed to \<^verbatim>\<open>synced\<close> (so \<^verbatim>\<open>id\<close> and \<^verbatim>\<open>local_id\<close> are what they
  were, whatever row the service returned), and the upload phase adds no key to the
  store. An item created while offline by an authenticated user is stored under
  \<^verbatim>\<open>local_<stamp>_<rand>\<close>, which is both its \<^verbatim>\<open>id\<close> and its \<^verbatim>\<open>local_id\<close>.
\<close>

theorem uploaded_item_keeps_local_id:
  assumes "no_faults (storage w)" "store_ok (storage w)"
  shows "(\<forall>c\<in>set (contentStorage_getPendingSyncContent (storage w)).
            push_ok remote c \<longrightarrow>
            contentStorage_getContentById (id_c c)
               (storage (snd (snd (SyncManager_uploadPendingContent remote result w)))) =
              Some (c\<lparr>sync_status := Some Synced\<rparr>))
       \<and> map fst (user_content_items
            (storage (snd (snd (SyncManager_uploadPendingContent remote result w))))) =
          map fst (user_content_items (storage w))
       \<and> (\<not> isOnline w \<and> auth_user (globalStore w) = Some uid \<longrightarrow>
            fst (SyncManager_createLocalContent remote now stamp rand content w) =
              Inr (content\<lparr>id_c := ''local_'' @ stamp @ ''_'' @ rand, user_id := uid,
                           created_at := now, updated_at := now, sync_status := Some Pending,
                           local_id := Some (''local_'' @ stamp @ ''_'' @ rand)\<rparr>) \<and>
            contentStorage_getContentById (''local_'' @ stamp @ ''_'' @ rand)
               (storage (snd (SyncManager_createLocalContent remote now stamp rand content w))) =
              Some (content\<lparr>id_c := ''local_'' @ stamp @ ''_'' @ rand, user_id := uid,
                           created_at := now, updated_at := now, sync_status := Some Pending,
                           local_id := Some (''local_'' @ stamp @ ''_'' @ rand)\<rparr>))"
proof -
  from uploadPendingContent_healthy [OF assms, of remote result] obtain r' w' where
    up: "SyncManager_uploadPendingContent remote result w = (None, r', w')"
    and st: "\<forall>c\<in>set (contentStorage_getPendingSyncContent (storage w)).
               contentStorage_getContentById (id_c c) (storage w') =
                 Some (c\<lparr>sync_status := Some (if push_ok remote c then Synced else Failed)\<rparr>)"
    and keys: "map fst (user_content_items (storage w')) = map fst (user_content_items (storage w))"
    by blast
  have a: "\<forall>c\<in>set (contentStorage_getPendingSyncContent (storage w)).
            push_ok remote c \<longrightarrow>
            contentStorage_getContentById (id_c c)
               (storage (snd (snd (SyncManager_uploadPendingContent remote result w)))) =
              Some (c\<lparr>sync_status := Some Synced\<rparr>)"
    using st by (simp add: up)
  have b: "map fst (user_content_items
            (storage (snd (snd (SyncManager_uploadPendingContent remote result w))))) =
          map fst (user_content_items (storage w))"
    using keys by (simp add: up)
  let ?new = "content\<lparr>id_c := ''local_'' @ stamp @ ''_'' @ rand, user_id := uid,
                           created_at := now, updated_at := now, sync_status := Some Pending,
                           local_id := Some (''local_'' @ stamp @ ''_'' @ rand)\<rparr>"
  let ?s1 = "(storage w)\<lparr>user_content_items :=
               AList.update (id_c ?new) ?new (user_content_items (storage w))\<rparr>"
  have sv: "contentStorage_saveContent ?new (storage w) = Inr ?s1"
    using assms(1) by (rule saveContent_healthy)
  obtain s2 where ap: "syncStorage_addPendingUpload (''local_'' @ stamp @ ''_'' @ rand) ?s1 = Inr s2"
    using addPendingUpload_resolves by blast
  have nf1: "no_faults ?s1" using assms(1) by (simp add: no_faults_def)
  from addPendingUpload_frame [OF ap] nf1
  have s2: "user_content_items s2 = user_content_items ?s1" "no_faults s2" by simp_all
  have look: "contentStorage_getContentById (''local_'' @ stamp @ ''_'' @ rand) s2 = Some ?new"
    by (simp add: getContentById_healthy [OF s2(2)] s2(1) update_conv')
  have c: "fst (SyncManager_createLocalContent remote now stamp rand content w) = Inr ?new \<and>
            contentStorage_getContentById (''local_'' @ stamp @ ''_'' @ rand)
               (storage (snd (SyncManager_createLocalContent remote now stamp rand content w))) =
              Some ?new"
    if "\<not> isOnline w \<and> auth_user (globalStore w) = Some uid"
    using that sv ap look by (simp add: SyncManager_createLocalContent_def Let_def)
  from a b c show ?thesis by blast
qed


theorem uploaded_item_keeps_local_id_witness:
  "no_faults (storage (sample_world
      (sample_storage None None
        [(sample_item ''local_1_k'' ''u1'' 1 (Some Pending))\<lparr>local_id := Some ''local_1_k''\<rparr>])
      (Some ''u1'') True False)) \<and>
   store_ok (storage (sample_world
      (sample_storage None None
        [(sample_item ''local_1_k'' ''u1'' 1 (Some Pending))\<lparr>local_id := Some ''local_1_k''\<rparr>])
      (Some ''u1'') True False)) \<and>
   push_ok (sample_remote [])
     ((sample_item ''local_1_k'' ''u1'' 1 (Some Pending))\<lparr>local_id := Some ''local_1_k''\<rparr>) \<and>
   contentStorage_getContentById ''local_1_k'' (storage (snd (snd
     (SyncManager_uploadPendingContent (sample_remote []) initial_SyncResult
       (sample_world
      (sample_storage None None
        [(sample_item ''local_1_k'' ''u1'' 1 (Some Pending))\<lparr>local_id := Some ''local_1_k''\<rparr>])
      (Some ''u1'') True False))))) =
     Some ((sample_item ''local_1_k'' ''u1'' 1 (Some Synced))\<lparr>local_id := Some ''local_1_k''\<rparr>)"
proof -
  let ?c = "(sample_item ''local_1_k'' ''u1'' 1 (Some Pending))\<lparr>local_id := Some ''local_1_k''\<rparr>"
  let ?W = "sample_world (sample_storage None None [?c]) (Some ''u1'') True False"
  have h: "no_faults (storage ?W)" "store_ok (storage ?W)"
    by (simp_all add: run)
  have p: "?c \<in> set (contentStorage_getPendingSyncContent (storage ?W))"
    by (simp add: run)
  have ok: "push_ok (sample_remote []) ?c"
    by (simp add: run)
  have i: "id_c ?c = ''local_1_k''"
    and c': "?c\<lparr>sync_status := Some Synced\<rparr> =
             (sample_item ''local_1_k'' ''u1'' 1 (Some Synced))\<lparr>local_id := Some ''local_1_k''\<rparr>"
    by (simp_all add: sample_item_def)
  from uploaded_item_keeps_local_id
         [OF h, of "sample_remote []" initial_SyncResult, THEN conjunct1, rule_format, OF p ok]
  have "contentStorage_getContentById ''local_1_k'' (storage (snd (snd
     (SyncManager_uploadPendingContent (sample_remote []) initial_SyncResult ?W)))) =
     Some ((sample_item ''local_1_k'' ''u1'' 1 (Some Synced))\<lparr>local_id := Some ''local_1_k''\<rparr>)"
    unfolding i c' .
  with h ok show ?thesis by (simp only: simp_thms)
qed

section \<open>Merging downloaded content\<close>

text \<open>
  Claim C2. On a store whose reads and writes succeed, for every item \<open>remote\<close> of a
  downloaded list with distinct ids, the merge never fails and what is stored under
  the item's id afterwards is: the remote item with \<^verbatim>\<open>sync_status\<close> set to
  \<^verbatim>\<open>synced\<close> when no local item had that id or the remote \<^verbatim>\<open>updated_at\<close> (\<open>T2\<close>) is
  strictly greater than the local one (\<open>T1\<close>); the local item, unchanged, when
  \<open>T1 \<ge> T2\<close>. Hence the stored result equals the remote item exactly when the local
  item is absent or \<open>T2 > T1\<close>, apart from a local copy that already was that very
  item, for which the two cases give the same value.
\<close>

theorem mergeRemoteContent_last_writer_wins:
  assumes "no_faults s" "store_ok s" "distinct (map id_c remoteContent)"
    and "remote \<in> set remoteContent"
  shows "fst (SyncManager_mergeRemoteContent remoteContent s) = None
       \<and> contentStorage_getContentById (id_c remote)
            (snd (SyncManager_mergeRemoteContent remoteContent s)) =
          (case contentStorage_getContentById (id_c remote) s of
             None \<Rightarrow> Some (remote\<lparr>sync_status := Some Synced\<rparr>)
           | Some local \<Rightarrow>
               if updated_at remote > updated_at local
               then Some (remote\<lparr>sync_status := Some Synced\<rparr>)
               else Some local)
       \<and> (contentStorage_getContentById (id_c remote)
            (snd (SyncManager_mergeRemoteContent remoteContent s)) =
            Some (remote\<lparr>sync_status := Some Synced\<rparr>)
          \<longleftrightarrow>
            (case contentStorage_getContentById (id_c remote) s of
               None \<Rightarrow> True
             | Some local \<Rightarrow> updated_at remote > updated_at local \<or>
                             local = remote\<lparr>sync_status := Some Synced\<rparr>))"
proof -
  let ?m = "map_of (rev (map (\<lambda>c. (id_c c, c)) (contentStorage_getAllContent s)))"
  have m: "?m = map_of (user_content_items s)"
    using assms(1,2) by (rule localContentMap_healthy)
  from merge_loop_healthy [OF assms(1,3), of ?m] obtain s' where
    loop: "merge_loop ?m remoteContent s = (None, s')" "no_faults s'"
    and after: "\<forall>r\<in>set remoteContent. map_of (user_content_items s') (id_c r) =
             (case ?m (id_c r) of
                None \<Rightarrow> Some (r\<lparr>sync_status := Some Synced\<rparr>)
              | Some l \<Rightarrow> if updated_at r > updated_at l
                          then Some (r\<lparr>sync_status := Some Synced\<rparr>)
                          else map_of (user_content_items s) (id_c r))"
    by blast
  have run: "SyncManager_mergeRemoteContent remoteContent s = (None, s')"
    using loop(1) by (simp add: SyncManager_mergeRemoteContent_def)
  from after assms(4) have
    "map_of (user_content_items s') (id_c remote) =
       (case map_of (user_content_items s) (id_c remote) of
          None \<Rightarrow> Some (remote\<lparr>sync_status := Some Synced\<rparr>)
        | Some l \<Rightarrow> if updated_at remote > updated_at l
                    then Some (remote\<lparr>sync_status := Some Synced\<rparr>)
                    else map_of (user_content_items s) (id_c remote))"
    unfolding m by blast
  then have stored: "contentStorage_getContentById (id_c remote)
            (snd (SyncManager_mergeRemoteContent remoteContent s)) =
          (case contentStorage_getContentById (id_c remote) s of
             None \<Rightarrow> Some (remote\<lparr>sync_status := Some Synced\<rparr>)
           | Some local \<Rightarrow>
               if updated_at remote > updated_at local
               then Some (remote\<lparr>sync_status := Some Synced\<rparr>)
               else Some local)"
    by (simp add: run getContentById_healthy [OF loop(2)] getContentById_healthy [OF assms(1)]
        split: option.splits)
  have iff: "contentStorage_getContentById (id_c remote)
            (snd (SyncManager_mergeRemoteContent remoteContent s)) =
            Some (remote\<lparr>sync_status := Some Synced\<rparr>)
          \<longleftrightarrow>
            (case contentStorage_getContentById (id_c remote) s of
               None \<Rightarrow> True
             | Some local \<Rightarrow> updated_at remote > updated_at local \<or>
                             local = remote\<lparr>sync_status := Some Synced\<rparr>)"
    unfolding stored by (auto split: option.splits)
  from run stored iff show ?thesis by simp
qed

theorem mergeRemoteContent_last_writer_wins_witness:
  "no_faults (sample_storage None None
       [sample_item ''x'' ''u1'' 5 (Some Pending), sample_item ''y'' ''u1'' 5 (Some Synced)]) \<and>
   store_ok (sample_storage None None
       [sample_item ''x'' ''u1'' 5 (Some Pending), sample_item ''y'' ''u1'' 5 (Some Synced)]) \<and>
   contentStorage_getContentById ''x''
     (snd (SyncManager_mergeRemoteContent
        [(sample_item ''x'' ''u1'' 5 None)\<lparr>title := ''Remote x''\<rparr>,
         (sample_item ''y'' ''u1'' 6 None)\<lparr>title := ''Remote y''\<rparr>,
         sample_item ''z'' ''u1'' 1 None]
        (sample_storage None None
          [sample_item ''x'' ''u1'' 5 (Some Pending), sample_item ''y'' ''u1'' 5 (Some Synced)]))) =
     Some (sample_item ''x'' ''u1'' 5 (Some Pending)) \<and>
   contentStorage_getContentById ''y''
     (snd (SyncManager_mergeRemoteContent
        [(sample_item ''x'' ''u1'' 5 None)\<lparr>title := ''Remote x''\<rparr>,
         (sample_item ''y'' ''u1'' 6 None)\<lparr>title := ''Remote y''\<rparr>,
         sample_item ''z'' ''u1'' 1 None]
        (sample_storage None None
          [sample_item ''x'' ''u1'' 5 (Some Pending), sample_item ''y'' ''u1'' 5 (Some Synced)]))) =
     Some ((sample_item ''y'' ''u1'' 6 (Some Synced))\<lparr>title := ''Remote y''\<rparr>) \<and>
   contentStorage_getContentById ''z''
     (snd (SyncManager_mergeRemoteContent
        [(sample_item ''x'' ''u1'' 5 None)\<lparr>title := ''Remote x''\<rparr>,
         (sample_item ''y'' ''u1'' 6 None)\<lparr>title := ''Remote y''\<rparr>,
         sample_item ''z'' ''u1'' 1 None]
        (sample_storage None None
          [sample_item ''x'' ''u1'' 5 (Some Pending), sample_item ''y'' ''u1'' 5 (Some Synced)]))) =
     Some (sample_item ''z'' ''u1'' 1 (Some Synced))"
proof -
  let ?S = "sample_storage None None
       [sample_item ''x'' ''u1'' 5 (Some Pending), sample_item ''y'' ''u1'' 5 (Some Synced)]"
  let ?rx = "(sample_item ''x'' ''u1'' 5 None)\<lparr>title := ''Remote x''\<rparr>"
  let ?ry = "(sample_item ''y'' ''u1'' 6 None)\<lparr>title := ''Remote y''\<rparr>"
  let ?rz = "sample_item ''z'' ''u1'' 1 None"
  have h: "no_faults ?S" "store_ok ?S" "distinct (map id_c [?rx, ?ry, ?rz])"
    by (simp_all add: run)
  have ids: "id_c ?rx = ''x''" "id_c ?ry = ''y''" "id_c ?rz = ''z''"
    by (simp_all add: sample_item_def)
  have before: "contentStorage_getContentById ''x'' ?S = Some (sample_item ''x'' ''u1'' 5 (Some Pending))"
    "contentStorage_getContentById ''y'' ?S = Some (sample_item ''y'' ''u1'' 5 (Some Synced))"
    "contentStorage_getContentById ''z'' ?S = None"
    by (simp_all add: run)
  have x: "contentStorage_getContentById ''x''
     (snd (SyncManager_mergeRemoteContent [?rx, ?ry, ?rz] ?S)) =
     Some (sample_item ''x'' ''u1'' 5 (Some Pending))"
    using mergeRemoteContent_last_writer_wins [OF h, of ?rx, THEN conjunct2, THEN conjunct1]
    unfolding ids before by (simp add: sample_item_def)
  have y: "contentStorage_getContentById ''y''
     (snd (SyncManager_mergeRemoteContent [?rx, ?ry, ?rz] ?S)) =
     Some ((sample_item ''y'' ''u1'' 6 (Some Synced))\<lparr>title := ''Remote y''\<rparr>)"
    using mergeRemoteContent_last_writer_wins [OF h, of ?ry, THEN conjunct2, THEN conjunct1]
    unfolding ids before by (simp add: sample_item_def)
  have z: "contentStorage_getContentById ''z''
     (snd (SyncManager_mergeRemoteContent [?rx, ?ry, ?rz] ?S)) =
     Some (sample_item ''z'' ''u1'' 1 (Some Synced))"
    using mergeRemoteContent_last_writer_wins [OF h, of ?rz, THEN conjunct2, THEN conjunct1]
    unfolding ids before by (simp add: sample_item_def)
  from h(1,2) x y z show ?thesis by (simp only: simp_thms)
qed

section \<open>The network listener\<close>

text \<open>
  Claim C9 says that on every connectivity transition the new reachability is stored
  in the in-memory flag and persisted into the durable \<^verbatim>\<open>is_online\<close> field. The
  listener writes the flag and \<^verbatim>\<open>globalStore.app.isOnline\<close> and never calls
  \<^verbatim>\<open>syncStorage\<close>. Going offline on a fresh device, the flag becomes false, nothing
  is written to the sync metadata, and the persisted \<^verbatim>\<open>is_online\<close> still reads true.
\<close>

theorem reachability_not_persisted_counterexample:
  "isOnline (network_listener (sample_remote []) 7 (Some False)
      (sample_world (sample_storage None None []) (Some ''u1'') True False)) = False \<and>
   is_online (syncStorage_getSyncStatus (storage
     (network_listener (sample_remote []) 7 (Some False)
      (sample_world (sample_storage None None []) (Some ''u1'') True False)))) = True \<and>
   sync_status_item (storage (network_listener (sample_remote []) 7 (Some False)
      (sample_world (sample_storage None None []) (Some ''u1'') True False))) = None"
  by (simp add: run)

text \<open>
  Claim C9, amended. On every connectivity event the new reachability (false when
  unknown) is stored in the in-memory flag and in the reactive store's
  \<^verbatim>\<open>app.isOnline\<close>; the persisted \<^verbatim>\<open>is_online\<close> reads afterwards what it read before.
  An event that is not an offline-to-online transition touches neither the durable
  store nor the remote service. An offline-to-online transition, when the persisted
  \<^verbatim>\<open>is_online\<close> reads true, runs one \<^verbatim>\<open>syncContent\<close> attempt and drops its result.
\<close>

theorem network_listener_updates_flags_only:
  "isOnline (network_listener remote now isConnected w) =
     (case isConnected of None \<Rightarrow> False | Some b \<Rightarrow> b)
 \<and> app_isOnline (globalStore (network_listener remote now isConnected w)) =
     (case isConnected of None \<Rightarrow> False | Some b \<Rightarrow> b)
 \<and> is_online (syncStorage_getSyncStatus (storage (network_listener remote now isConnected w))) =
     is_online (syncStorage_getSyncStatus (storage w))
 \<and> (isOnline w \<or> isConnected \<noteq> Some True \<longrightarrow>
      storage (network_listener remote now isConnected w) = storage w \<and>
      remote_log (network_listener remote now isConnected w) = remote_log w)
 \<and> (\<not> isOnline w \<and> isConnected = Some True \<and>
     is_online (syncStorage_getSyncStatus (storage w)) \<longrightarrow>
      network_listener remote now isConnected w =
        snd (SyncManager_syncContent remote now
               (w\<lparr>isOnline := True,
                  globalStore := storeActions_setOnlineStatus True (globalStore w)\<rparr>)))"
proof -
  let ?b = "case isConnected of None \<Rightarrow> False | Some b \<Rightarrow> b"
  let ?w2 = "w\<lparr>isOnline := ?b, globalStore := storeActions_setOnlineStatus ?b (globalStore w)\<rparr>"
  note s = syncContent_online [of remote now ?w2]
  show ?thesis
  proof (cases "\<not> isOnline w \<and> isConnected = Some True")
    case False
    then have "network_listener remote now isConnected w = ?w2"
      by (cases isConnected) (auto simp: network_listener_def Let_def)
    with False show ?thesis
      by (cases isConnected) (auto simp: storeActions_setOnlineStatus_def)
  next
    case True
    then have "network_listener remote now isConnected w =
        (if is_online (syncStorage_getSyncStatus (storage w))
         then snd (SyncManager_syncContent remote now ?w2) else ?w2)"
      by (simp add: network_listener_def SyncManager_triggerAutoSync_def Let_def)
    with True s show ?thesis
      by (simp add: storeActions_setOnlineStatus_def)
  qed
qed


theorem network_listener_updates_flags_only_witness:
  "\<not> isOnline (sample_world
       (sample_storage None None [sample_item ''a'' ''u1'' 1 (Some Pending)])
       (Some ''u1'') False False) \<and>
   is_online (syncStorage_getSyncStatus (storage (sample_world
       (sample_storage None None [sample_item ''a'' ''u1'' 1 (Some Pending)])
       (Some ''u1'') False False))) \<and>
   isOnline (network_listener (sample_remote []) 7 (Some True)
     (sample_world
       (sample_storage None None [sample_item ''a'' ''u1'' 1 (Some Pending)])
       (Some ''u1'') False False)) \<and>
   network_listener (sample_remote []) 7 (Some True)
     (sample_world
       (sample_storage None None [sample_item ''a'' ''u1'' 1 (Some Pending)])
       (Some ''u1'') False False) =
     snd (SyncManager_syncContent (sample_remote []) 7
       ((sample_world
          (sample_storage None None [sample_item ''a'' ''u1'' 1 (Some Pending)])
          (Some ''u1'') False False)
        \<lparr>isOnline := True,
         globalStore := storeActions_setOnlineStatus True (globalStore (sample_world
          (sample_storage None None [sample_item ''a'' ''u1'' 1 (Some Pending)])
          (Some ''u1'') False False))\<rparr>))"
proof -
  let ?W = "sample_world
       (sample_storage None None [sample_item ''a'' ''u1'' 1 (Some Pending)])
       (Some ''u1'') False False"
  have h: "\<not> isOnline ?W" "is_online (syncStorage_getSyncStatus (storage ?W))"
    by (simp_all add: run)
  note t = network_listener_updates_flags_only [of "sample_remote []" 7 "Some True" ?W]
  from t have a: "isOnline (network_listener (sample_remote []) 7 (Some True) ?W)"
    by (simp only: option.case simp_thms)
  from t h have b: "network_listener (sample_remote []) 7 (Some True) ?W =
     snd (SyncManager_syncContent (sample_remote []) 7
       (?W\<lparr>isOnline := True,
           globalStore := storeActions_setOnlineStatus True (globalStore ?W)\<rparr>))"
    by (simp only: simp_thms)
  from h a b show ?thesis by (simp only: simp_thms)
qed

end
